theory Spec2Isabelle
  imports Complex_Main
begin

section \<open>Values, dictionaries and the Python built-ins the dashboard uses\<close>

text \<open>
  \<^verbatim>\<open>bot_dashboard.py\<close> works on rows decoded from JSON: a row is a Python \<^verbatim>\<open>dict\<close>
  with string keys whose values are \<^verbatim>\<open>None\<close>, booleans, numbers, strings, lists or
  dicts. A dict is an association list in insertion order, looked up with \<open>map_of\<close>.

  Python's \<^verbatim>\<open>float\<close> is modelled by \<open>real\<close>: the arithmetic below is the source's
  expression, operator by operator, without rounding, infinities or NaN. Strings are
  lists of 8-bit characters, the bytes of their UTF-8 encoding: a character of ASCII is one
  byte below 128, and a string of such bytes only is an ASCII string. \<^verbatim>\<open>lower\<close> changes
  the ASCII letters; \<^verbatim>\<open>upper\<close> does so on an ASCII string and is Python's own on any
  other string.
\<close>

datatype json =
    JNull
  | JBool bool
  | JInt int
  | JFloat real
  | JStr string
  | JArr "json list"
  | JObj "(string \<times> json) list"

type_synonym pydict = "(string \<times> json) list"

datatype py_error = TypeError | ValueError | ZeroDivisionError | KeyError

text \<open>
  What the source calls and this repository does not define: \<^verbatim>\<open>float(s)\<close> on a string
  (\<open>None\<close> is the \<^verbatim>\<open>ValueError\<close>), \<^verbatim>\<open>str(v)\<close> on a value that is not a string,
  \<^verbatim>\<open>s.upper()\<close> on a string that is not ASCII,
  pandas' \<^verbatim>\<open>to_datetime(format="ISO8601", utc=True, errors="coerce")\<close> on one cell
  (\<open>None\<close> is \<^verbatim>\<open>NaT\<close>; an instant is a number of nanoseconds) and
  \<^verbatim>\<open>to_numeric(errors="coerce")\<close> on one cell (\<open>None\<close> is \<^verbatim>\<open>NaN\<close>). They are
  parameters of the model.
\<close>

record externals =
  float_of_str :: "string \<Rightarrow> real option"
  str_of_value :: "json \<Rightarrow> string"
  str_upper :: "string \<Rightarrow> string"
  to_datetime :: "json \<Rightarrow> int option"
  to_numeric :: "json \<Rightarrow> real option"

definition dict_get :: "pydict \<Rightarrow> string \<Rightarrow> json \<Rightarrow> json" where
  \<comment> \<open>\<^verbatim>\<open>d.get(k, default)\<close>\<close>
  "dict_get d k dflt = (case map_of d k of None \<Rightarrow> dflt | Some v \<Rightarrow> v)"

definition dict_has :: "pydict \<Rightarrow> string \<Rightarrow> bool" where
  \<comment> \<open>\<^verbatim>\<open>k in d\<close>\<close>
  "dict_has d k = (map_of d k \<noteq> None)"

fun truthy :: "json \<Rightarrow> bool" where
  "truthy JNull = False"
| "truthy (JBool b) = b"
| "truthy (JInt i) = (i \<noteq> 0)"
| "truthy (JFloat r) = (r \<noteq> 0)"
| "truthy (JStr s) = (s \<noteq> [])"
| "truthy (JArr xs) = (xs \<noteq> [])"
| "truthy (JObj kvs) = (kvs \<noteq> [])"

definition py_or :: "json \<Rightarrow> json \<Rightarrow> json" where
  \<comment> \<open>\<^verbatim>\<open>a or b\<close>\<close>
  "py_or a b = (if truthy a then a else b)"

fun py_float :: "externals \<Rightarrow> json \<Rightarrow> py_error + real" where
  "py_float ext JNull = Inl TypeError"
| "py_float ext (JBool b) = Inr (if b then 1 else 0)"
| "py_float ext (JInt i) = Inr (real_of_int i)"
| "py_float ext (JFloat r) = Inr r"
| "py_float ext (JStr s) =
     (case float_of_str ext s of None \<Rightarrow> Inl ValueError | Some r \<Rightarrow> Inr r)"
| "py_float ext (JArr xs) = Inl TypeError"
| "py_float ext (JObj kvs) = Inl TypeError"

fun py_str :: "externals \<Rightarrow> json \<Rightarrow> string" where
  "py_str ext (JStr s) = s"
| "py_str ext v = str_of_value ext v"

definition py_truediv :: "real \<Rightarrow> real \<Rightarrow> py_error + real" where
  \<comment> \<open>\<^verbatim>\<open>a / b\<close> on floats\<close>
  "py_truediv a b = (if b = 0 then Inl ZeroDivisionError else Inr (a / b))"

definition ebind :: "'e + 'a \<Rightarrow> ('a \<Rightarrow> 'e + 'b) \<Rightarrow> 'e + 'b" where
  \<comment> \<open>the rest of a block runs unless the statement before it raised\<close>
  "ebind m f = (case m of Inl e \<Rightarrow> Inl e | Inr x \<Rightarrow> f x)"

definition upper_char :: "char \<Rightarrow> char" where
  "upper_char c =
     (case map_of (zip ''abcdefghijklmnopqrstuvwxyz'' ''ABCDEFGHIJKLMNOPQRSTUVWXYZ'') c of
        None \<Rightarrow> c | Some u \<Rightarrow> u)"

definition lower_char :: "char \<Rightarrow> char" where
  "lower_char c =
     (case map_of (zip ''ABCDEFGHIJKLMNOPQRSTUVWXYZ'' ''abcdefghijklmnopqrstuvwxyz'') c of
        None \<Rightarrow> c | Some l \<Rightarrow> l)"

definition is_ascii :: "string \<Rightarrow> bool" where
  "is_ascii s = list_all (\<lambda>c. \<not> digit7 c) s"

definition upper :: "externals \<Rightarrow> string \<Rightarrow> string" where
  \<comment> \<open>\<^verbatim>\<open>s.upper()\<close>\<close>
  "upper ext s = (if is_ascii s then map upper_char s else str_upper ext s)"

definition lower :: "string \<Rightarrow> string" where
  "lower s = map lower_char s"

fun startswith :: "string \<Rightarrow> string \<Rightarrow> bool" where
  "startswith s [] = True"
| "startswith [] (p # ps) = False"
| "startswith (c # cs) (p # ps) = (c = p \<and> startswith cs ps)"

fun str_contains :: "string \<Rightarrow> string \<Rightarrow> bool" where
  \<comment> \<open>\<^verbatim>\<open>sub in s\<close>\<close>
  "str_contains sub [] = (sub = [])"
| "str_contains sub (c # cs) = (startswith (c # cs) sub \<or> str_contains sub cs)"

section \<open>Position normalizer\<close>

text \<open>
  \<^verbatim>\<open>st.session_state\<close> maps a key to the value stored under it; the only key of the
  script is \<^verbatim>\<open>"latest_price"\<close>, holding a float or \<^verbatim>\<open>None\<close>.
\<close>

type_synonym session_state = "string \<rightharpoonup> real option"

definition session_get :: "session_state \<Rightarrow> string \<Rightarrow> real option" where
  \<comment> \<open>\<^verbatim>\<open>st.session_state.get(k, None)\<close>\<close>
  "session_get ss k = (case ss k of None \<Rightarrow> None | Some v \<Rightarrow> v)"

text \<open>The two labels of the \<^verbatim>\<open>"Type"\<close> column, \<^verbatim>\<open>LONG\<close> and \<^verbatim>\<open>SHORT\<close> after their markers.\<close>

datatype type_label = LONG | SHORT

record position_row =
  Symbol :: string
  Type :: type_label
  Collateral :: real
  Leverage :: real
  Notional :: real
  Entry :: real
  PnL :: real
  ROI_pct :: real

definition position_pnl ::
  "real option \<Rightarrow> real \<Rightarrow> string \<Rightarrow> real \<Rightarrow> py_error + real" where
  \<comment> \<open>lines 92-97, and 118-123 with \<^verbatim>\<open>qty\<close> for \<^verbatim>\<open>notional\<close>\<close>
  "position_pnl latest_price entry side notional =
     (case latest_price of
        None \<Rightarrow> Inr 0
      | Some lp \<Rightarrow>
          if lp \<noteq> 0 \<and> entry \<noteq> 0 then
            (if side = ''long''
             then ebind (py_truediv (lp - entry) entry) (\<lambda>q. Inr (q * notional))
             else ebind (py_truediv (entry - lp) entry) (\<lambda>q. Inr (q * notional)))
          else Inr 0)"

definition position_collateral :: "real \<Rightarrow> real \<Rightarrow> py_error + real" where
  \<comment> \<open>\<^verbatim>\<open>(notional / lev) if lev else 0.0\<close>\<close>
  "position_collateral notional lev = (if lev \<noteq> 0 then py_truediv notional lev else Inr 0)"

definition position_roi :: "real \<Rightarrow> real \<Rightarrow> py_error + real" where
  \<comment> \<open>\<^verbatim>\<open>(pnl / collateral) * 100.0 if collateral > 0 else 0.0\<close>\<close>
  "position_roi pnl collateral =
     (if collateral > 0 then ebind (py_truediv pnl collateral) (\<lambda>q. Inr (q * 100)) else Inr 0)"

definition parse_leverage :: "externals \<Rightarrow> pydict \<Rightarrow> py_error + real" where
  \<comment> \<open>\<^verbatim>\<open>float(pos.get("leverage", 1) or 1)\<close>\<close>
  "parse_leverage ext pos = py_float ext (py_or (dict_get pos ''leverage'' (JInt 1)) (JInt 1))"

definition parse_entry_price :: "externals \<Rightarrow> pydict \<Rightarrow> py_error + real" where
  \<comment> \<open>\<^verbatim>\<open>float(pos.get("entry_price", 0) or 0)\<close>\<close>
  "parse_entry_price ext pos =
     py_float ext (py_or (dict_get pos ''entry_price'' (JInt 0)) (JInt 0))"

definition is_current_variant :: "pydict \<Rightarrow> bool" where
  \<comment> \<open>\<^verbatim>\<open>"notional_usdt" in pos or "side" in pos\<close>\<close>
  "is_current_variant pos = (dict_has pos ''notional_usdt'' \<or> dict_has pos ''side'')"

definition current_side :: "externals \<Rightarrow> pydict \<Rightarrow> string" where
  \<comment> \<open>\<^verbatim>\<open>str(pos.get("side", "long")).lower()\<close>\<close>
  "current_side ext pos = lower (py_str ext (dict_get pos ''side'' (JStr ''long'')))"

definition legacy_side :: "string \<Rightarrow> string" where
  \<comment> \<open>\<^verbatim>\<open>"long" if "buy" in str(key).lower() else "short"\<close>\<close>
  "legacy_side key = (if str_contains ''buy'' (lower key) then ''long'' else ''short'')"

definition make_row ::
  "string \<Rightarrow> string \<Rightarrow> real \<Rightarrow> real \<Rightarrow> real \<Rightarrow> real \<Rightarrow> real \<Rightarrow> real \<Rightarrow> position_row" where
  "make_row key side collateral lev notional entry pnl roi =
     \<lparr> Symbol = key, Type = (if side = ''long'' then LONG else SHORT),
       Collateral = collateral, Leverage = lev, Notional = notional, Entry = entry,
       PnL = pnl, ROI_pct = roi \<rparr>"

definition normalize_position ::
  "externals \<Rightarrow> real option \<Rightarrow> string \<Rightarrow> pydict \<Rightarrow> py_error + position_row" where
  \<comment> \<open>the body of the loop of \<^verbatim>\<open>normalize_positions\<close>, lines 83-136\<close>
  "normalize_position ext latest_price key pos =
     ebind (parse_leverage ext pos) (\<lambda>lev.
     ebind (parse_entry_price ext pos) (\<lambda>entry.
       if is_current_variant pos then
         ebind (py_float ext (py_or (dict_get pos ''notional_usdt'' (JInt 0)) (JInt 0)))
           (\<lambda>notional.
         let side = current_side ext pos in
         ebind (position_collateral notional lev) (\<lambda>collateral.
         ebind (position_pnl latest_price entry side notional) (\<lambda>pnl.
         ebind (position_roi pnl collateral) (\<lambda>roi.
           Inr (make_row key side collateral lev notional entry pnl roi)))))
       else
         ebind (py_float ext (py_or (dict_get pos ''qty'' (JInt 0)) (JInt 0))) (\<lambda>qty.
         ebind (position_collateral qty lev) (\<lambda>collateral.
         let side = legacy_side key in
         ebind (position_pnl latest_price entry side qty) (\<lambda>pnl.
         ebind (position_roi pnl collateral) (\<lambda>roi.
           Inr (make_row key side collateral lev qty entry pnl roi)))))))"

fun normalize_loop ::
  "externals \<Rightarrow> real option \<Rightarrow> (string \<times> pydict) list \<Rightarrow> position_row list
     \<Rightarrow> py_error + position_row list" where
  "normalize_loop ext latest_price [] rows = Inr rows"
| "normalize_loop ext latest_price ((key, pos) # rest) rows =
     ebind (normalize_position ext latest_price key pos) (\<lambda>row.
       normalize_loop ext latest_price rest (rows @ [row]))"

definition normalize_positions ::
  "externals \<Rightarrow> session_state \<Rightarrow> (string \<times> pydict) list \<Rightarrow> py_error + position_row list" where
  "normalize_positions ext ss positions =
     (if positions = [] then Inr []
      else normalize_loop ext (session_get ss ''latest_price'') positions [])"

section \<open>Data fetchers\<close>

text \<open>
  A query is the chain \<^verbatim>\<open>table(t).select("*").order(col, desc=True).limit(n)\<close>;
  \<^verbatim>\<open>execute\<close> either raises an \<^verbatim>\<open>Exception\<close> (\<open>Inl\<close>) or answers with
  \<^verbatim>\<open>res.data\<close>, a list of rows or \<^verbatim>\<open>None\<close>. A fetcher returns its result together with
  the queries it sent, in order.
\<close>

record query =
  q_table :: string
  q_order :: string
  q_desc :: bool
  q_limit :: int

definition data_or_empty :: "pydict list option \<Rightarrow> pydict list" where
  \<comment> \<open>\<^verbatim>\<open>res.data or []\<close>\<close>
  "data_or_empty d = (case d of None \<Rightarrow> [] | Some rows \<Rightarrow> rows)"

definition fetch_bot_logs ::
  "(query \<Rightarrow> 'e + pydict list option) \<Rightarrow> int \<Rightarrow> ('e + pydict list) \<times> query list" where
  "fetch_bot_logs execute limit =
     (let q1 = \<lparr> q_table = ''bot_logs'', q_order = ''created_at'', q_desc = True,
                 q_limit = limit \<rparr>
      in case execute q1 of
           Inr d \<Rightarrow> (Inr (data_or_empty d), [q1])
         | Inl _ \<Rightarrow>
             (let q2 = \<lparr> q_table = ''bot_logs'', q_order = ''timestamp'', q_desc = True,
                         q_limit = limit \<rparr>
              in case execute q2 of
                   Inr d \<Rightarrow> (Inr (data_or_empty d), [q1, q2])
                 | Inl e \<Rightarrow> (Inl e, [q1, q2])))"

definition fetch_trade_history ::
  "(query \<Rightarrow> 'e + pydict list option) \<Rightarrow> int \<Rightarrow> ('e + pydict list) \<times> query list" where
  "fetch_trade_history execute limit =
     (let q1 = \<lparr> q_table = ''trade_history'', q_order = ''created_at'', q_desc = True,
                 q_limit = limit \<rparr>
      in case execute q1 of
           Inr d \<Rightarrow> (Inr (data_or_empty d), [q1])
         | Inl _ \<Rightarrow>
             (let q2 = \<lparr> q_table = ''trade_history'', q_order = ''timestamp'', q_desc = True,
                         q_limit = limit \<rparr>
              in case execute q2 of
                   Inr d \<Rightarrow> (Inr (data_or_empty d), [q1, q2])
                 | Inl e \<Rightarrow> (Inl e, [q1, q2])))"

section \<open>Latest price\<close>

definition latest_price_raw :: "pydict list \<Rightarrow> json" where
  \<comment> \<open>lines 168-170\<close>
  "latest_price_raw logs =
     (case logs of [] \<Rightarrow> JNull | log0 # _ \<Rightarrow> dict_get log0 ''market_price'' JNull)"

definition store_latest_price ::
  "externals \<Rightarrow> pydict list \<Rightarrow> session_state \<Rightarrow> py_error + session_state" where
  \<comment> \<open>line 171\<close>
  "store_latest_price ext logs ss =
     (let latest_price = latest_price_raw logs
      in if latest_price \<noteq> JNull
         then ebind (py_float ext latest_price) (\<lambda>p. Inr (ss(''latest_price'' \<mapsto> Some p)))
         else Inr (ss(''latest_price'' \<mapsto> None)))"

text \<open>
  The text of the "Latest Price" metric: \<^verbatim>\<open>"N/A"\<close>, or the price in dollars with two
  decimals (the formatting is the format string's).
\<close>

datatype metric_text = NA | Dollars real

definition latest_price_metric :: "session_state \<Rightarrow> py_error + metric_text" where
  \<comment> \<open>line 185\<close>
  "latest_price_metric ss =
     (case ss ''latest_price'' of
        None \<Rightarrow> Inl KeyError
      | Some None \<Rightarrow> Inr NA
      | Some (Some p) \<Rightarrow> Inr (if p \<noteq> 0 then Dollars p else NA))"

section \<open>Decision timeline\<close>

text \<open>
  \<^verbatim>\<open>pd.DataFrame(logs)\<close> has one row per record, indexed by the record's position in
  \<^verbatim>\<open>logs\<close>, and one column per key that occurs in some record; a record without the
  key has \<^verbatim>\<open>NaN\<close> in that column (\<open>None\<close> below). \<^verbatim>\<open>sort_values\<close> is modelled by a
  stable sort; pandas does not fix the order of rows with equal instants.
\<close>

definition ACTION_INTENT_MAP :: "(string \<times> string) list" where
  "ACTION_INTENT_MAP =
     [(''ENTER_LONG'', ''enter_long''),
      (''ENTER_SHORT'', ''enter_short''),
      (''ADD'', ''add''),
      (''REDUCE'', ''reduce''),
      (''CLOSE'', ''flat''),
      (''HOLD'', ''hold''),
      (''REVERSE'', ''reverse'')]"

definition has_column :: "pydict list \<Rightarrow> string \<Rightarrow> bool" where
  \<comment> \<open>\<^verbatim>\<open>c in df.columns\<close>\<close>
  "has_column logs c = list_ex (\<lambda>r. dict_has r c) logs"

definition chart_time_cell :: "pydict list \<Rightarrow> pydict \<Rightarrow> json option" where
  \<comment> \<open>lines 228-229: the \<^verbatim>\<open>created_at\<close> column, made from \<^verbatim>\<open>timestamp\<close> when absent\<close>
  "chart_time_cell logs r =
     (if has_column logs ''created_at'' then map_of r ''created_at''
      else if has_column logs ''timestamp'' then map_of r ''timestamp''
      else None)"

definition safe_to_datetime :: "externals \<Rightarrow> json option \<Rightarrow> int option" where
  "safe_to_datetime ext cell =
     (case cell of None \<Rightarrow> None | Some JNull \<Rightarrow> None | Some v \<Rightarrow> to_datetime ext v)"

definition astype_str :: "externals \<Rightarrow> json option \<Rightarrow> string" where
  \<comment> \<open>\<^verbatim>\<open>astype(str)\<close> on one cell\<close>
  "astype_str ext cell = (case cell of None \<Rightarrow> ''nan'' | Some v \<Rightarrow> py_str ext v)"

definition map_intent :: "externals \<Rightarrow> string \<Rightarrow> string" where
  \<comment> \<open>\<^verbatim>\<open>s.str.upper().map(ACTION_INTENT_MAP).fillna(s)\<close> on one cell\<close>
  "map_intent ext s =
     (case map_of ACTION_INTENT_MAP (upper ext s) of None \<Rightarrow> s | Some m \<Rightarrow> m)"

definition intent_norm_of :: "externals \<Rightarrow> pydict list \<Rightarrow> pydict \<Rightarrow> string" where
  \<comment> \<open>lines 235-244\<close>
  "intent_norm_of ext logs r =
     (if has_column logs ''intent''
      then map_intent ext (astype_str ext (map_of r ''intent''))
      else if has_column logs ''action''
      then map_intent ext (astype_str ext (map_of r ''action''))
      else ''hold'')"

definition chart_price :: "externals \<Rightarrow> pydict list \<Rightarrow> pydict \<Rightarrow> real option" where
  \<comment> \<open>lines 247-248\<close>
  "chart_price ext logs r =
     (if has_column logs ''market_price''
      then (case map_of r ''market_price'' of None \<Rightarrow> None | Some v \<Rightarrow> to_numeric ext v)
      else None)"

record chart_row =
  idx :: nat
  created_at :: int
  intent_norm :: string
  market_price :: "real option"

definition chart_row_of :: "externals \<Rightarrow> pydict list \<Rightarrow> nat \<times> pydict \<Rightarrow> chart_row option" where
  \<comment> \<open>\<open>None\<close>: dropped by \<^verbatim>\<open>dropna(subset=["created_at"])\<close>\<close>
  "chart_row_of ext logs ir =
     (case safe_to_datetime ext (chart_time_cell logs (snd ir)) of
        None \<Rightarrow> None
      | Some t \<Rightarrow>
          Some \<lparr> idx = fst ir, created_at = t,
                 intent_norm = intent_norm_of ext logs (snd ir),
                 market_price = chart_price ext logs (snd ir) \<rparr>)"

definition df_chart :: "externals \<Rightarrow> pydict list \<Rightarrow> chart_row list" where
  \<comment> \<open>lines 225-250\<close>
  "df_chart ext logs =
     sort_key created_at (List.map_filter (chart_row_of ext logs) (enumerate 0 logs))"

record recent_row =
  Time :: string
  Decision :: json
  Thesis :: string

definition recent_entry :: "externals \<Rightarrow> pydict \<Rightarrow> recent_row" where
  \<comment> \<open>the body of the loop of lines 277-283, \<open>lg\<close> for \<^verbatim>\<open>log\<close>\<close>
  "recent_entry ext lg =
     (let ts_raw = py_or (py_or (dict_get lg ''created_at'' JNull)
                                (dict_get lg ''timestamp'' JNull)) (JStr []);
          ts = py_str ext ts_raw;
          tshort = (if str_contains ''T'' ts then take 8 (drop 11 ts) else ts);
          intent = py_or (py_or (dict_get lg ''intent'' JNull)
                                (dict_get lg ''action'' JNull)) (JStr []);
          thesis = py_or (py_or (dict_get lg ''rationale'' JNull)
                                (dict_get lg ''thesis'' JNull)) (JStr [])
      in \<lparr> Time = tshort, Decision = intent, Thesis = take 160 (py_str ext thesis) \<rparr>)"

text \<open>
  \<^verbatim>\<open>px.line(df_chart, x="created_at", y="market_price")\<close>, line 252: plotly raises a
  \<^verbatim>\<open>ValueError\<close> for a \<^verbatim>\<open>y\<close> that is no column of the frame, and the script does not
  catch it. The frame always has its \<^verbatim>\<open>created_at\<close> column (lines 228-229). The other
  calls that only draw (\<^verbatim>\<open>add_scatter\<close>, \<^verbatim>\<open>plotly_chart\<close>, \<^verbatim>\<open>dataframe\<close>) are left out.
\<close>

definition px_line :: "pydict list \<Rightarrow> py_error + unit" where
  "px_line logs = (if has_column logs ''market_price'' then Inr () else Inl ValueError)"

text \<open>What the section "Bot Decisions (Recent)" has built when it ends.\<close>

record timeline =
  chart :: "chart_row list"
  buys :: "chart_row list"
  shorts :: "chart_row list"
  adds :: "chart_row list"
  reduces :: "chart_row list"
  exits :: "chart_row list"
  recent :: "recent_row list"

definition bot_decisions :: "externals \<Rightarrow> pydict list \<Rightarrow> py_error + timeline option" where
  \<comment> \<open>lines 224-287; \<open>Inr None\<close> is the branch of \<^verbatim>\<open>st.info("No bot logs found.")\<close>\<close>
  "bot_decisions ext logs =
     (if logs \<noteq> [] then
        (let df = df_chart ext logs
         in ebind (px_line logs) (\<lambda>fig.
              Inr (Some
                \<lparr> chart = df,
                  buys = filter (\<lambda>r. intent_norm r = ''enter_long'') df,
                  shorts = filter (\<lambda>r. intent_norm r = ''enter_short'') df,
                  adds = filter (\<lambda>r. intent_norm r = ''add'') df,
                  reduces = filter (\<lambda>r. intent_norm r = ''reduce'') df,
                  exits = filter (\<lambda>r. intent_norm r \<in> set [''flat'', ''reverse'']) df,
                  recent = map (recent_entry ext) (take 25 logs) \<rparr>)))
      else Inr None)"

section \<open>The formulas of the position view\<close>

text \<open>
  The invariants of the position view as plain formulas: collateral, profit and loss, and
  return on collateral, from the parsed leverage, entry price and notional.
\<close>

definition collateral_formula :: "real \<Rightarrow> real \<Rightarrow> real" where
  "collateral_formula notional lev = (if lev \<noteq> 0 then notional / lev else 0)"

definition pnl_formula :: "real option \<Rightarrow> real \<Rightarrow> bool \<Rightarrow> real \<Rightarrow> real" where
  "pnl_formula latest_price entry is_long notional =
     (case latest_price of
        None \<Rightarrow> 0
      | Some lp \<Rightarrow>
          if lp = 0 \<or> entry = 0 then 0
          else if is_long then (lp - entry) / entry * notional
          else (entry - lp) / entry * notional)"

definition roi_formula :: "real \<Rightarrow> real \<Rightarrow> real" where
  "roi_formula pnl collateral = (if collateral > 0 then pnl / collateral * 100 else 0)"

text \<open>
  The field that holds the notional, the side and the whole view of one entry, from its
  three parsed numbers.
\<close>

definition notional_field :: "pydict \<Rightarrow> string" where
  "notional_field pos = (if is_current_variant pos then ''notional_usdt'' else ''qty'')"

definition side_of :: "externals \<Rightarrow> string \<Rightarrow> pydict \<Rightarrow> string" where
  "side_of ext key pos = (if is_current_variant pos then current_side ext pos else legacy_side key)"

definition view_of ::
  "real option \<Rightarrow> string \<Rightarrow> string \<Rightarrow> real \<Rightarrow> real \<Rightarrow> real \<Rightarrow> position_row" where
  "view_of lp key side lev entry notional =
     (let collateral = collateral_formula notional lev;
          pnl = pnl_formula lp entry (side = ''long'') notional
      in make_row key side collateral lev notional entry pnl (roi_formula pnl collateral))"

text \<open>An entry whose numeric fields are numbers, where present.\<close>

definition numeric_or_absent :: "pydict \<Rightarrow> string \<Rightarrow> bool" where
  "numeric_or_absent pos k =
     (case map_of pos k of
        None \<Rightarrow> True | Some (JInt n) \<Rightarrow> True | Some (JFloat x) \<Rightarrow> True | Some _ \<Rightarrow> False)"

definition numeric_entry :: "pydict \<Rightarrow> bool" where
  "numeric_entry pos =
     (numeric_or_absent pos ''leverage'' \<and> numeric_or_absent pos ''entry_price'' \<and>
      numeric_or_absent pos ''notional_usdt'' \<and> numeric_or_absent pos ''qty'')"

section \<open>The timestamp of a record, in the words of the specification\<close>

text \<open>
  The specification selects one timestamp field per record: \<^verbatim>\<open>created_at\<close> if present,
  else \<^verbatim>\<open>timestamp\<close>. The code selects per column (\<open>chart_time_cell\<close>).
\<close>

definition selected_timestamp :: "pydict \<Rightarrow> json option" where
  "selected_timestamp r =
     (case map_of r ''created_at'' of None \<Rightarrow> map_of r ''timestamp'' | Some v \<Rightarrow> Some v)"

section \<open>Example inputs\<close>

text \<open>
  An instance of the externals for the examples: of all strings only \<^verbatim>\<open>"0"\<close> is a
  float, and only \<^verbatim>\<open>"2024-01-01T12:34:56.789+00:00"\<close> and \<^verbatim>\<open>"2024-01-01T12:35:56+00:00"\<close>
  are instants; \<^verbatim>\<open>str\<close> of a value that is not a string is \<^verbatim>\<open>"None"\<close>; only numbers
  are numeric; of the strings that are not ASCII, \<^verbatim>\<open>upper\<close> changes only \<^verbatim>\<open>"clo"\<close>, long s,
  \<^verbatim>\<open>"e"\<close> (the long s is the bytes C5 BF), into \<^verbatim>\<open>"CLOSE"\<close>.
\<close>

definition example_externals :: externals where
  "example_externals =
     \<lparr> float_of_str = (\<lambda>s. if s = ''0'' then Some 0 else None),
       str_of_value = (\<lambda>v. ''None''),
       str_upper = (\<lambda>s. if s = ''clo'' @ [CHR 0xC5, CHR 0xBF] @ ''e'' then ''CLOSE'' else s),
       to_datetime = (\<lambda>v. if v = JStr ''2024-01-01T12:34:56.789+00:00''
                           then Some 1704112496789000000
                           else if v = JStr ''2024-01-01T12:35:56+00:00''
                           then Some 1704112556000000000 else None),
       to_numeric = (\<lambda>v. case v of JInt i \<Rightarrow> Some (real_of_int i)
                                   | JFloat r \<Rightarrow> Some r | _ \<Rightarrow> None) \<rparr>"

definition example_session :: session_state where
  "example_session = [''latest_price'' \<mapsto> Some 110]"

definition example_legacy_positions :: "(string \<times> pydict) list" where
  "example_legacy_positions =
     [(''BTC/USDT:USDT_buy'',
       [(''qty'', JInt 500), (''entry_price'', JInt 100), (''leverage'', JInt 0)])]"

definition example_current_positions :: "(string \<times> pydict) list" where
  "example_current_positions =
     [(''BTC/USDT:USDT'',
       [(''side'', JStr ''long''), (''notional_usdt'', JInt 1000),
        (''entry_price'', JInt 100), (''leverage'', JInt 10)]),
      (''ETH/USDT:USDT'',
       [(''side'', JStr ''SHORT''), (''notional_usdt'', JInt 1000),
        (''entry_price'', JInt 100), (''leverage'', JInt 10)])]"

text \<open>A legacy entry without entry price, whose leverage is the string \<^verbatim>\<open>"0"\<close>.\<close>

definition example_sparse_positions :: "(string \<times> pydict) list" where
  "example_sparse_positions =
     [(''ETH/USDT:USDT_sell'', [(''qty'', JInt 200), (''leverage'', JStr ''0'')])]"

text \<open>Three log records in store order, newest first; the last has no instant.\<close>

definition example_logs :: "pydict list" where
  "example_logs =
     [[(''created_at'', JStr ''2024-01-01T12:35:56+00:00''), (''intent'', JStr ''flat''),
       (''market_price'', JInt 110)],
      [(''created_at'', JStr ''2024-01-01T12:34:56.789+00:00''),
       (''intent'', JStr ''UNKNOWN_X''), (''market_price'', JStr ''n/a'')],
      [(''created_at'', JStr ''not-a-date''), (''intent'', JStr ''ENTER_LONG''),
       (''market_price'', JInt 105)]]"

text \<open>
  Twenty-six log records, each with a price: the first twenty-five alike, the last without
  an instant.
\<close>

definition example_many_logs :: "pydict list" where
  "example_many_logs =
     replicate 25
       [(''created_at'', JStr ''2024-01-01T12:35:56+00:00''), (''intent'', JStr ''HOLD''),
        (''market_price'', JInt 110)] @
     [[(''created_at'', JStr ''not-a-date''), (''intent'', JStr ''HOLD''),
       (''market_price'', JInt 105)]]"

text \<open>
  A frame with an \<^verbatim>\<open>intent\<close> column in which the second record has an \<^verbatim>\<open>action\<close> only.
\<close>

definition example_mixed_logs :: "pydict list" where
  "example_mixed_logs =
     [[(''created_at'', JStr ''2024-01-01T12:35:56+00:00''), (''intent'', JStr ''flat''),
       (''market_price'', JInt 110)],
      [(''created_at'', JStr ''2024-01-01T12:34:56.789+00:00''), (''action'', JStr ''flat''),
       (''market_price'', JInt 109)]]"

text \<open>Logs whose first record has a null price.\<close>

definition example_null_price_logs :: "pydict list" where
  "example_null_price_logs =
     [[(''created_at'', JStr ''2024-01-01T12:35:56+00:00''), (''market_price'', JNull)]]"

text \<open>A store whose two orderings both fail, with different messages.\<close>

definition example_failing_store :: "query \<Rightarrow> string + pydict list option" where
  "example_failing_store q =
     (if q_order q = ''created_at'' then Inl ''no column created_at'' else Inl ''store is down'')"

section \<open>Properties of the position normalizer\<close>

lemma position_collateral_eq:
  "position_collateral notional lev = Inr (collateral_formula notional lev)"
  by (simp add: position_collateral_def collateral_formula_def py_truediv_def)

lemma position_pnl_eq:
  "position_pnl lp entry side notional = Inr (pnl_formula lp entry (side = ''long'') notional)"
  by (simp add: position_pnl_def pnl_formula_def py_truediv_def ebind_def split: option.splits)

lemma position_roi_eq:
  "position_roi pnl collateral = Inr (roi_formula pnl collateral)"
  by (simp add: position_roi_def roi_formula_def py_truediv_def ebind_def)

lemma normalize_position_eq:
  assumes "parse_leverage ext pos = Inr lev"
    and "parse_entry_price ext pos = Inr entry"
    and "py_float ext (py_or (dict_get pos (notional_field pos) (JInt 0)) (JInt 0)) = Inr notional"
  shows "normalize_position ext lp key pos =
           Inr (view_of lp key (side_of ext key pos) lev entry notional)"
  using assms
  by (cases "is_current_variant pos")
    (simp_all add: normalize_position_def ebind_def notional_field_def side_of_def view_of_def
      position_collateral_eq position_pnl_eq position_roi_eq Let_def)

lemma py_float_not_zerodiv: "py_float ext v \<noteq> Inl ZeroDivisionError"
  by (cases v) (auto split: option.splits)

lemma normalize_position_cases:
  "(\<exists>e. normalize_position ext lp key pos = Inl e \<and> e \<noteq> ZeroDivisionError) \<or>
   (\<exists>lev entry notional.
      parse_leverage ext pos = Inr lev \<and> parse_entry_price ext pos = Inr entry \<and>
      py_float ext (py_or (dict_get pos (notional_field pos) (JInt 0)) (JInt 0)) = Inr notional \<and>
      normalize_position ext lp key pos =
        Inr (view_of lp key (side_of ext key pos) lev entry notional))"
proof (cases "parse_leverage ext pos")
  case (Inl e)
  then have "e \<noteq> ZeroDivisionError"
    using py_float_not_zerodiv by (auto simp: parse_leverage_def)
  with Inl show ?thesis by (simp add: normalize_position_def ebind_def)
next
  case lev: (Inr lev)
  show ?thesis
  proof (cases "parse_entry_price ext pos")
    case (Inl e)
    then have "e \<noteq> ZeroDivisionError"
      using py_float_not_zerodiv by (auto simp: parse_entry_price_def)
    with Inl lev show ?thesis by (simp add: normalize_position_def ebind_def)
  next
    case entry: (Inr entry)
    show ?thesis
    proof (cases "py_float ext (py_or (dict_get pos (notional_field pos) (JInt 0)) (JInt 0))")
      case (Inl e)
      then have "e \<noteq> ZeroDivisionError"
        using py_float_not_zerodiv by auto
      with Inl lev entry show ?thesis
        by (auto simp add: normalize_position_def ebind_def notional_field_def split: if_splits)
    next
      case (Inr notional)
      with lev entry show ?thesis
        using normalize_position_eq [of ext pos lev entry notional lp key] by simp
    qed
  qed
qed

lemma normalize_position_Inr:
  assumes "normalize_position ext lp key pos = Inr row"
  shows "\<exists>lev entry notional.
      parse_leverage ext pos = Inr lev \<and> parse_entry_price ext pos = Inr entry \<and>
      py_float ext (py_or (dict_get pos (notional_field pos) (JInt 0)) (JInt 0)) = Inr notional \<and>
      row = view_of lp key (side_of ext key pos) lev entry notional"
  using normalize_position_cases [of ext lp key pos] assms by auto

lemma normalize_loop_Inr:
  "normalize_loop ext lp ps acc = Inr rows \<Longrightarrow>
     \<exists>rs. rows = acc @ rs \<and>
       list_all2 (\<lambda>kp row. normalize_position ext lp (fst kp) (snd kp) = Inr row) ps rs"
proof (induction ps arbitrary: acc)
  case Nil
  then show ?case by simp
next
  case (Cons kp ps)
  obtain key pos where kp: "kp = (key, pos)" by (cases kp)
  from Cons.prems kp obtain row where
    row: "normalize_position ext lp key pos = Inr row"
    and rest: "normalize_loop ext lp ps (acc @ [row]) = Inr rows"
    by (auto simp: ebind_def split: sum.splits)
  from Cons.IH [OF rest] obtain rs where
    "rows = (acc @ [row]) @ rs"
    "list_all2 (\<lambda>kp row. normalize_position ext lp (fst kp) (snd kp) = Inr row) ps rs"
    by blast
  with row kp show ?case by (intro exI [of _ "row # rs"]) simp
qed

lemma normalize_positions_Inr:
  assumes "normalize_positions ext ss positions = Inr rows"
  shows "list_all2 (\<lambda>kp row. normalize_position ext (session_get ss ''latest_price'')
           (fst kp) (snd kp) = Inr row) positions rows"
proof (cases "positions = []")
  case True
  with assms show ?thesis by (simp add: normalize_positions_def)
next
  case False
  with assms have "normalize_loop ext (session_get ss ''latest_price'') positions [] = Inr rows"
    by (simp add: normalize_positions_def)
  from normalize_loop_Inr [OF this] show ?thesis by simp
qed


lemma startswith_iff: "startswith s p \<longleftrightarrow> (\<exists>suf. s = p @ suf)"
  by (induction s p rule: startswith.induct) auto

lemma str_contains_iff: "str_contains sub s \<longleftrightarrow> (\<exists>pre suf. s = pre @ sub @ suf)"
proof (induction s)
  case Nil
  then show ?case by simp
next
  case (Cons c cs)
  have "(\<exists>pre suf. c # cs = pre @ sub @ suf) \<longleftrightarrow>
        (\<exists>suf. c # cs = sub @ suf) \<or> (\<exists>pre suf. cs = pre @ sub @ suf)"
    (is "?l \<longleftrightarrow> ?r")
  proof
    assume ?l
    then obtain pre suf where eq: "c # cs = pre @ sub @ suf" by blast
    show ?r
    proof (cases pre)
      case Nil
      with eq show ?thesis by auto
    next
      case (Cons a pre')
      with eq have "cs = pre' @ sub @ suf" by simp
      then show ?thesis by blast
    qed
  next
    assume ?r
    then show ?l
    proof
      assume "\<exists>suf. c # cs = sub @ suf"
      then obtain suf where "c # cs = [] @ sub @ suf" by auto
      then show ?l by blast
    next
      assume "\<exists>pre suf. cs = pre @ sub @ suf"
      then obtain pre suf where "c # cs = (c # pre) @ sub @ suf" by auto
      then show ?l by blast
    qed
  qed
  with Cons show ?case by (simp add: startswith_iff)
qed

lemma normalize_positions_nth:
  assumes "normalize_positions ext ss positions = Inr rows"
    and "i < length positions" and "positions ! i = (key, pos)"
  shows "i < length rows \<and>
         normalize_position ext (session_get ss ''latest_price'') key pos = Inr (rows ! i)"
  using normalize_positions_Inr [OF assms(1)] assms(2,3)
  by (auto simp: list_all2_conv_all_nth)

lemma normalize_positions_mem:
  assumes "normalize_positions ext ss positions = Inr rows" and "row \<in> set rows"
  shows "\<exists>key pos. (key, pos) \<in> set positions \<and>
           normalize_position ext (session_get ss ''latest_price'') key pos = Inr row"
proof -
  from assms(2) obtain i where i: "i < length rows" "rows ! i = row"
    by (auto simp: in_set_conv_nth)
  have l: "list_all2 (\<lambda>kp row. normalize_position ext (session_get ss ''latest_price'')
           (fst kp) (snd kp) = Inr row) positions rows"
    by (rule normalize_positions_Inr [OF assms(1)])
  then have len: "length positions = length rows" by (rule list_all2_lengthD)
  from l i len have "normalize_position ext (session_get ss ''latest_price'')
      (fst (positions ! i)) (snd (positions ! i)) = Inr row"
    by (auto simp: list_all2_conv_all_nth)
  moreover from i len have "(fst (positions ! i), snd (positions ! i)) \<in> set positions"
    by simp
  ultimately show ?thesis by blast
qed

lemma normalize_loop_no_zerodiv:
  "normalize_loop ext lp ps acc \<noteq> Inl ZeroDivisionError"
proof (induction ps arbitrary: acc)
  case Nil
  then show ?case by simp
next
  case (Cons kp ps)
  obtain key pos where kp: "kp = (key, pos)" by (cases kp)
  show ?case
    using normalize_position_cases [of ext lp key pos] Cons.IH kp
    by (auto simp: ebind_def)
qed

lemma normalize_positions_no_zerodiv:
  "normalize_positions ext ss positions \<noteq> Inl ZeroDivisionError"
  by (simp add: normalize_positions_def normalize_loop_no_zerodiv)

lemma view_of_simps:
  "Symbol (view_of lp key side lev entry notional) = key"
  "Type (view_of lp key side lev entry notional) = (if side = ''long'' then LONG else SHORT)"
  "Collateral (view_of lp key side lev entry notional) = collateral_formula notional lev"
  "Leverage (view_of lp key side lev entry notional) = lev"
  "Notional (view_of lp key side lev entry notional) = notional"
  "Entry (view_of lp key side lev entry notional) = entry"
  "PnL (view_of lp key side lev entry notional) = pnl_formula lp entry (side = ''long'') notional"
  "ROI_pct (view_of lp key side lev entry notional) =
     roi_formula (pnl_formula lp entry (side = ''long'') notional) (collateral_formula notional lev)"
  by (simp_all add: view_of_def make_row_def Let_def)

lemma py_float_numeric:
  assumes "numeric_or_absent pos k"
  shows "\<exists>x. py_float ext (py_or (dict_get pos k (JInt d)) (JInt d)) = Inr x"
proof (cases "map_of pos k")
  case None
  then show ?thesis by (simp add: dict_get_def py_or_def)
next
  case (Some v)
  with assms show ?thesis
    by (cases v) (simp_all add: numeric_or_absent_def dict_get_def py_or_def)
qed

lemma normalize_position_returns:
  assumes "numeric_entry pos"
  shows "\<exists>row. normalize_position ext lp key pos = Inr row"
proof -
  from assms have n: "numeric_or_absent pos (notional_field pos)"
    by (simp add: numeric_entry_def notional_field_def)
  from assms obtain lev entry where
    "parse_leverage ext pos = Inr lev" "parse_entry_price ext pos = Inr entry"
    using py_float_numeric [of pos "''leverage''" ext 1]
      py_float_numeric [of pos "''entry_price''" ext 0]
    by (auto simp: numeric_entry_def parse_leverage_def parse_entry_price_def)
  moreover from py_float_numeric [OF n, of ext 0] obtain notional where
    "py_float ext (py_or (dict_get pos (notional_field pos) (JInt 0)) (JInt 0)) = Inr notional"
    by blast
  ultimately show ?thesis
    using normalize_position_eq [of ext pos lev entry notional lp key] by blast
qed

lemma normalize_loop_returns:
  assumes "\<forall>kp \<in> set ps. numeric_entry (snd kp)"
  shows "\<exists>rows. normalize_loop ext lp ps acc = Inr rows"
  using assms
proof (induction ps arbitrary: acc)
  case Nil
  then show ?case by simp
next
  case (Cons kp ps)
  obtain key pos where kp: "kp = (key, pos)" by (cases kp)
  with Cons.prems obtain row where "normalize_position ext lp key pos = Inr row"
    using normalize_position_returns [of pos ext lp key] by auto
  moreover from Cons.prems Cons.IH [of "acc @ [row]"]
  obtain rows where "normalize_loop ext lp ps (acc @ [row]) = Inr rows" by auto
  ultimately show ?case using kp by (simp add: ebind_def)
qed

lemma normalize_positions_returns:
  assumes "\<forall>kp \<in> set positions. numeric_entry (snd kp)"
  shows "\<exists>rows. normalize_positions ext ss positions = Inr rows"
  using normalize_loop_returns [OF assms] by (simp add: normalize_positions_def)

lemma example_sparse_rows:
  "normalize_positions example_externals example_session example_sparse_positions =
     Inr [\<lparr> Symbol = ''ETH/USDT:USDT_sell'', Type = SHORT, Collateral = 0, Leverage = 0,
            Notional = 200, Entry = 0, PnL = 0, ROI_pct = 0 \<rparr>]"
  by (simp add: normalize_positions_def normalize_position_def ebind_def session_get_def
      parse_leverage_def parse_entry_price_def is_current_variant_def dict_has_def dict_get_def
      py_or_def position_collateral_def position_pnl_def position_roi_def py_truediv_def
      legacy_side_def lower_def lower_char_def make_row_def Let_def
      example_session_def example_sparse_positions_def example_externals_def)

lemma example_legacy_rows:
  "normalize_positions example_externals example_session example_legacy_positions =
     Inr [\<lparr> Symbol = ''BTC/USDT:USDT_buy'', Type = LONG, Collateral = 500, Leverage = 1,
            Notional = 500, Entry = 100, PnL = 50, ROI_pct = 10 \<rparr>]"
  by (simp add: normalize_positions_def normalize_position_def ebind_def session_get_def
      parse_leverage_def parse_entry_price_def is_current_variant_def dict_has_def dict_get_def
      py_or_def position_collateral_def position_pnl_def position_roi_def py_truediv_def
      legacy_side_def lower_def lower_char_def make_row_def Let_def
      example_session_def example_legacy_positions_def)

text \<open>
  C1, as the code has it. A legacy entry whose \<^verbatim>\<open>leverage\<close> field is the number 0 is
  given leverage 1 by \<^verbatim>\<open>or 1\<close>: its collateral is its notional (\<^verbatim>\<open>qty\<close>) and its
  return is \<^verbatim>\<open>pnl / qty * 100\<close> when \<^verbatim>\<open>qty > 0\<close>, else 0. Collateral 0 and return 0 belong
  to a parsed leverage of 0 (a field such as the string \<^verbatim>\<open>"0"\<close>). The normalizer never
  raises a division by zero.
\<close>

theorem legacy_zero_leverage:
  assumes "i < length positions" and "positions ! i = (key, pos)"
    and "\<not> is_current_variant pos"
  shows "normalize_positions ext ss positions \<noteq> Inl ZeroDivisionError \<and>
         (\<forall>rows. normalize_positions ext ss positions = Inr rows \<longrightarrow>
            (map_of pos ''leverage'' = Some (JInt 0) \<or> map_of pos ''leverage'' = Some (JFloat 0)
               \<longrightarrow> Leverage (rows ! i) = 1 \<and> Collateral (rows ! i) = Notional (rows ! i) \<and>
                   ROI_pct (rows ! i) =
                     (if Notional (rows ! i) > 0
                      then PnL (rows ! i) / Notional (rows ! i) * 100 else 0)) \<and>
            (Leverage (rows ! i) = 0
               \<longrightarrow> Collateral (rows ! i) = 0 \<and> ROI_pct (rows ! i) = 0))"
proof (intro conjI allI impI)
  show "normalize_positions ext ss positions \<noteq> Inl ZeroDivisionError"
    by (rule normalize_positions_no_zerodiv)
next
  fix rows
  assume rows: "normalize_positions ext ss positions = Inr rows"
  from normalize_positions_nth [OF rows assms(1,2)]
  have "normalize_position ext (session_get ss ''latest_price'') key pos = Inr (rows ! i)"
    by simp
  from normalize_position_Inr [OF this] obtain lev entry notional where
    lev: "parse_leverage ext pos = Inr lev"
    and row: "rows ! i = view_of (session_get ss ''latest_price'') key (side_of ext key pos)
                 lev entry notional"
    by blast
  {
    assume "map_of pos ''leverage'' = Some (JInt 0) \<or> map_of pos ''leverage'' = Some (JFloat 0)"
    with lev have "lev = 1"
      by (auto simp: parse_leverage_def dict_get_def py_or_def)
    with row show "Leverage (rows ! i) = 1" "Collateral (rows ! i) = Notional (rows ! i)"
      "ROI_pct (rows ! i) =
         (if Notional (rows ! i) > 0 then PnL (rows ! i) / Notional (rows ! i) * 100 else 0)"
      by (simp_all add: view_of_simps collateral_formula_def roi_formula_def)
  }
  {
    assume "Leverage (rows ! i) = 0"
    with row show "Collateral (rows ! i) = 0" "ROI_pct (rows ! i) = 0"
      by (simp_all add: view_of_simps collateral_formula_def roi_formula_def)
  }
qed


theorem legacy_zero_leverage_witness:
  "\<not> is_current_variant (snd (example_legacy_positions ! 0)) \<and>
   map_of (snd (example_legacy_positions ! 0)) ''leverage'' = Some (JInt 0) \<and>
   (\<exists>rows. normalize_positions example_externals example_session example_legacy_positions
              = Inr rows \<and>
           Leverage (rows ! 0) = 1 \<and> Collateral (rows ! 0) = Notional (rows ! 0) \<and>
           ROI_pct (rows ! 0) = 10) \<and>
   \<not> is_current_variant (snd (example_sparse_positions ! 0)) \<and>
   map_of (snd (example_sparse_positions ! 0)) ''leverage'' = Some (JStr ''0'') \<and>
   (\<exists>rows. normalize_positions example_externals example_session example_sparse_positions
              = Inr rows \<and>
           Leverage (rows ! 0) = 0 \<and> Collateral (rows ! 0) = 0 \<and> ROI_pct (rows ! 0) = 0)"
proof -
  have legacy: "\<not> is_current_variant (snd (example_legacy_positions ! 0))"
    by (simp add: example_legacy_positions_def is_current_variant_def dict_has_def)
  have field: "map_of (snd (example_legacy_positions ! 0)) ''leverage'' = Some (JInt 0)"
    by (simp add: example_legacy_positions_def)
  have len: "0 < length example_legacy_positions"
    by (simp add: example_legacy_positions_def)
  have nth: "example_legacy_positions ! 0 =
      (fst (example_legacy_positions ! 0), snd (example_legacy_positions ! 0))"
    by simp
  have legacy': "\<not> is_current_variant (snd (example_sparse_positions ! 0))"
    by (simp add: example_sparse_positions_def is_current_variant_def dict_has_def)
  have field': "map_of (snd (example_sparse_positions ! 0)) ''leverage'' = Some (JStr ''0'')"
    by (simp add: example_sparse_positions_def)
  have len': "0 < length example_sparse_positions"
    by (simp add: example_sparse_positions_def)
  have nth': "example_sparse_positions ! 0 =
      (fst (example_sparse_positions ! 0), snd (example_sparse_positions ! 0))"
    by simp
  from legacy_zero_leverage [OF len nth legacy, of example_externals example_session]
    example_legacy_rows field legacy
  have first: "\<exists>rows. normalize_positions example_externals example_session
        example_legacy_positions = Inr rows \<and>
      Leverage (rows ! 0) = 1 \<and> Collateral (rows ! 0) = Notional (rows ! 0) \<and>
      ROI_pct (rows ! 0) = 10"
    by simp
  from legacy_zero_leverage [OF len' nth' legacy', of example_externals example_session]
    example_sparse_rows
  have "\<exists>rows. normalize_positions example_externals example_session
        example_sparse_positions = Inr rows \<and>
      Leverage (rows ! 0) = 0 \<and> Collateral (rows ! 0) = 0 \<and> ROI_pct (rows ! 0) = 0"
    by simp
  with first legacy field legacy' field' show ?thesis by blast
qed

text \<open>
  The claim as the specification words it fails on the same entry: the leverage field is 0,
  the collateral is 500 and the return is 10.
\<close>

theorem legacy_zero_leverage_counterexample:
  "\<not> is_current_variant
       [(''qty'', JInt 500), (''entry_price'', JInt 100), (''leverage'', JInt 0)] \<and>
   normalize_positions example_externals [''latest_price'' \<mapsto> Some 110]
     [(''BTC/USDT:USDT_buy'',
       [(''qty'', JInt 500), (''entry_price'', JInt 100), (''leverage'', JInt 0)])] =
     Inr [\<lparr> Symbol = ''BTC/USDT:USDT_buy'', Type = LONG, Collateral = 500, Leverage = 1,
            Notional = 500, Entry = 100, PnL = 50, ROI_pct = 10 \<rparr>]"
  by (simp add: normalize_positions_def normalize_position_def ebind_def session_get_def
      parse_leverage_def parse_entry_price_def is_current_variant_def dict_has_def dict_get_def
      py_or_def position_collateral_def position_pnl_def position_roi_def py_truediv_def
      legacy_side_def lower_def lower_char_def make_row_def Let_def)

lemmas eval_defs =
  normalize_positions_def normalize_position_def ebind_def session_get_def
  parse_leverage_def parse_entry_price_def is_current_variant_def dict_has_def dict_get_def
  py_or_def position_collateral_def position_pnl_def position_roi_def py_truediv_def
  legacy_side_def current_side_def lower_def lower_char_def make_row_def Let_def

lemma example_current_rows:
  "normalize_positions example_externals example_session example_current_positions =
     Inr [\<lparr> Symbol = ''BTC/USDT:USDT'', Type = LONG, Collateral = 100, Leverage = 10,
            Notional = 1000, Entry = 100, PnL = 100, ROI_pct = 100 \<rparr>,
          \<lparr> Symbol = ''ETH/USDT:USDT'', Type = SHORT, Collateral = 100, Leverage = 10,
            Notional = 1000, Entry = 100, PnL = - 100, ROI_pct = - 100 \<rparr>]"
  by (simp add: eval_defs example_session_def example_current_positions_def)

lemma parse_leverage_default:
  "parse_leverage ext pos =
     py_float ext (case map_of pos ''leverage'' of
                     None \<Rightarrow> JInt 1 | Some v \<Rightarrow> if truthy v then v else JInt 1)"
  by (simp add: parse_leverage_def dict_get_def py_or_def split: option.splits)

lemma parse_entry_price_default:
  "parse_entry_price ext pos =
     py_float ext (case map_of pos ''entry_price'' of
                     None \<Rightarrow> JInt 0 | Some v \<Rightarrow> if truthy v then v else JInt 0)"
  by (simp add: parse_entry_price_def dict_get_def py_or_def split: option.splits)

lemma notional_default:
  "py_float ext (py_or (dict_get pos k (JInt 0)) (JInt 0)) =
     py_float ext (case map_of pos k of
                     None \<Rightarrow> JInt 0 | Some v \<Rightarrow> if truthy v then v else JInt 0)"
  by (simp add: dict_get_def py_or_def split: option.splits)

lemma row_pnl:
  assumes "normalize_position ext lp key pos = Inr row"
  shows "PnL row = pnl_formula lp (Entry row) (Type row = LONG) (Notional row)"
proof -
  from normalize_position_Inr [OF assms] obtain lev entry notional where
    "row = view_of lp key (side_of ext key pos) lev entry notional" by blast
  then show ?thesis by (simp add: view_of_simps)
qed

text \<open>
  C3. For every entry of the positions, either variant, the leverage of its row is the
  float of the entry's \<^verbatim>\<open>leverage\<close> field, with 1 in place of a missing or falsy field
  (the number 0 included), and the entry price of its row is the float of the
  \<^verbatim>\<open>entry_price\<close> field, with 0 in place of a missing (or falsy) field.
\<close>

theorem leverage_entry_price_defaults:
  assumes "normalize_positions ext ss positions = Inr rows"
    and "i < length positions" and "positions ! i = (key, pos)"
  shows "py_float ext (case map_of pos ''leverage'' of
                         None \<Rightarrow> JInt 1 | Some v \<Rightarrow> if truthy v then v else JInt 1)
           = Inr (Leverage (rows ! i)) \<and>
         py_float ext (case map_of pos ''entry_price'' of
                         None \<Rightarrow> JInt 0 | Some v \<Rightarrow> if truthy v then v else JInt 0)
           = Inr (Entry (rows ! i))"
proof -
  from normalize_positions_nth [OF assms]
  have "normalize_position ext (session_get ss ''latest_price'') key pos = Inr (rows ! i)"
    by simp
  from normalize_position_Inr [OF this] obtain lev entry notional where
    "parse_leverage ext pos = Inr lev" "parse_entry_price ext pos = Inr entry"
    "rows ! i = view_of (session_get ss ''latest_price'') key (side_of ext key pos)
                 lev entry notional"
    by blast
  then show ?thesis
    by (simp add: view_of_simps parse_leverage_default parse_entry_price_default)
qed

theorem leverage_entry_price_defaults_witness:
  "(\<exists>rows. normalize_positions example_externals example_session example_legacy_positions
              = Inr rows \<and>
      py_float example_externals (JInt 1) = Inr (Leverage (rows ! 0)) \<and>
      py_float example_externals (JInt 100) = Inr (Entry (rows ! 0)))"
proof -
  have len: "0 < length example_legacy_positions"
    by (simp add: example_legacy_positions_def)
  have nth: "example_legacy_positions ! 0 =
      (''BTC/USDT:USDT_buy'',
       [(''qty'', JInt 500), (''entry_price'', JInt 100), (''leverage'', JInt 0)])"
    by (simp add: example_legacy_positions_def)
  from leverage_entry_price_defaults [OF example_legacy_rows len nth] example_legacy_rows
  show ?thesis by simp
qed

text \<open>
  C5. \<^verbatim>\<open>normalize_positions\<close> produces one row per entry, and for every one of them: the
  profit and loss is 0 when the latest price is absent or zero, or the entry price is zero,
  as it is when the field is absent; otherwise it is
  \<^verbatim>\<open>(latest_price - entry) / entry * notional\<close> for a long row and
  \<^verbatim>\<open>(entry - latest_price) / entry * notional\<close> for a short one.
\<close>

theorem pnl_invariant:
  assumes "normalize_positions ext ss positions = Inr rows"
    and "i < length positions" and "positions ! i = (key, pos)"
  shows "length rows = length positions \<and>
     PnL (rows ! i) =
       (case session_get ss ''latest_price'' of
          None \<Rightarrow> 0
        | Some latest_price \<Rightarrow>
            if latest_price = 0 \<or> Entry (rows ! i) = 0 then 0
            else if Type (rows ! i) = LONG
                 then (latest_price - Entry (rows ! i)) / Entry (rows ! i) * Notional (rows ! i)
                 else (Entry (rows ! i) - latest_price) / Entry (rows ! i) * Notional (rows ! i))
     \<and> (map_of pos ''entry_price'' = None \<longrightarrow> Entry (rows ! i) = 0 \<and> PnL (rows ! i) = 0)"
proof -
  let ?lp = "session_get ss ''latest_price''"
  have len: "length rows = length positions"
    using normalize_positions_Inr [OF assms(1)] by (simp add: list_all2_lengthD)
  from normalize_positions_nth [OF assms]
  have row: "normalize_position ext ?lp key pos = Inr (rows ! i)" by simp
  from row_pnl [OF row]
  have pnl: "PnL (rows ! i) =
      pnl_formula ?lp (Entry (rows ! i)) (Type (rows ! i) = LONG) (Notional (rows ! i))" .
  have "Entry (rows ! i) = 0" if "map_of pos ''entry_price'' = None"
  proof -
    from normalize_position_Inr [OF row] obtain lev entry notional where
      "parse_entry_price ext pos = Inr entry"
      "rows ! i = view_of ?lp key (side_of ext key pos) lev entry notional"
      by blast
    with that show ?thesis
      by (simp add: view_of_simps parse_entry_price_default)
  qed
  with pnl len show ?thesis
    by (simp add: pnl_formula_def split: option.splits)
qed

theorem pnl_invariant_witness:
  "(\<exists>rows. normalize_positions example_externals example_session example_current_positions
       = Inr rows \<and> session_get example_session ''latest_price'' = Some 110 \<and>
       Type (rows ! 1) = SHORT \<and> Entry (rows ! 1) = 100 \<and> Notional (rows ! 1) = 1000 \<and>
       PnL (rows ! 1) = (100 - 110) / 100 * 1000)
   \<and>
   (\<exists>rows. normalize_positions example_externals example_session example_sparse_positions
       = Inr rows \<and> map_of (snd (example_sparse_positions ! 0)) ''entry_price'' = None \<and>
       PnL (rows ! 0) = 0)"
proof -
  have len1: "1 < length example_current_positions"
    by (simp add: example_current_positions_def)
  have nth1: "example_current_positions ! 1 =
      (fst (example_current_positions ! 1), snd (example_current_positions ! 1))"
    by simp
  have len0: "0 < length example_sparse_positions"
    by (simp add: example_sparse_positions_def)
  have nth0: "example_sparse_positions ! 0 =
      (fst (example_sparse_positions ! 0), snd (example_sparse_positions ! 0))"
    by simp
  have absent: "map_of (snd (example_sparse_positions ! 0)) ''entry_price'' = None"
    by (simp add: example_sparse_positions_def)
  have price: "session_get example_session ''latest_price'' = Some 110"
    by (simp add: session_get_def example_session_def)
  from pnl_invariant [OF example_current_rows len1 nth1] example_current_rows price
  have first: "\<exists>rows. normalize_positions example_externals example_session
        example_current_positions = Inr rows \<and>
      session_get example_session ''latest_price'' = Some 110 \<and>
      Type (rows ! 1) = SHORT \<and> Entry (rows ! 1) = 100 \<and> Notional (rows ! 1) = 1000 \<and>
      PnL (rows ! 1) = (100 - 110) / 100 * 1000"
    by simp
  from pnl_invariant [OF example_sparse_rows len0 nth0] absent
  have "PnL ([\<lparr> Symbol = ''ETH/USDT:USDT_sell'', Type = SHORT, Collateral = 0, Leverage = 0,
            Notional = 200, Entry = 0, PnL = 0, ROI_pct = 0 \<rparr>] ! 0) = 0"
    by blast
  with example_sparse_rows absent
  have "\<exists>rows. normalize_positions example_externals example_session example_sparse_positions
       = Inr rows \<and> map_of (snd (example_sparse_positions ! 0)) ''entry_price'' = None \<and>
       PnL (rows ! 0) = 0"
    by blast
  with first show ?thesis by blast
qed

text \<open>
  C7. An entry with a \<^verbatim>\<open>notional_usdt\<close> or a \<^verbatim>\<open>side\<close> field is of the current variant:
  its side is the lower-cased \<^verbatim>\<open>side\<close> field, \<^verbatim>\<open>"long"\<close> when the field is missing, and
  its notional is \<^verbatim>\<open>notional_usdt\<close>, 0 when missing. Any other entry is of the legacy
  variant: its notional is \<^verbatim>\<open>qty\<close>, 0 when missing, and it is long exactly when its
  lower-cased key has the substring \<^verbatim>\<open>"buy"\<close>, else short. The row shows the side as its
  \<^verbatim>\<open>Type\<close>: long when the side is \<^verbatim>\<open>"long"\<close>, short otherwise.
\<close>

theorem variant_dispatch:
  assumes "normalize_positions ext ss positions = Inr rows"
    and "i < length positions" and "positions ! i = (key, pos)"
  shows "if dict_has pos ''notional_usdt'' \<or> dict_has pos ''side''
         then Type (rows ! i) =
                (if lower (py_str ext (case map_of pos ''side'' of
                                         None \<Rightarrow> JStr ''long'' | Some v \<Rightarrow> v)) = ''long''
                 then LONG else SHORT) \<and>
              py_float ext (case map_of pos ''notional_usdt'' of
                              None \<Rightarrow> JInt 0 | Some v \<Rightarrow> if truthy v then v else JInt 0)
                = Inr (Notional (rows ! i))
         else Type (rows ! i) =
                (if \<exists>pre suf. lower key = pre @ ''buy'' @ suf then LONG else SHORT) \<and>
              py_float ext (case map_of pos ''qty'' of
                              None \<Rightarrow> JInt 0 | Some v \<Rightarrow> if truthy v then v else JInt 0)
                = Inr (Notional (rows ! i))"
proof -
  from normalize_positions_nth [OF assms]
  have "normalize_position ext (session_get ss ''latest_price'') key pos = Inr (rows ! i)"
    by simp
  from normalize_position_Inr [OF this] obtain lev entry notional where
    n: "py_float ext (py_or (dict_get pos (notional_field pos) (JInt 0)) (JInt 0)) = Inr notional"
    and row: "rows ! i = view_of (session_get ss ''latest_price'') key (side_of ext key pos)
                 lev entry notional"
    by blast
  show ?thesis
  proof (cases "is_current_variant pos")
    case True
    with n have "py_float ext (case map_of pos ''notional_usdt'' of
                              None \<Rightarrow> JInt 0 | Some v \<Rightarrow> if truthy v then v else JInt 0)
                = Inr notional"
      by (simp add: notional_field_def notional_default)
    moreover have "side_of ext key pos = lower (py_str ext (case map_of pos ''side'' of
                                         None \<Rightarrow> JStr ''long'' | Some v \<Rightarrow> v))"
      using True by (simp add: side_of_def current_side_def dict_get_def)
    ultimately show ?thesis
      using True row by (simp add: view_of_simps is_current_variant_def)
  next
    case False
    with n have "py_float ext (case map_of pos ''qty'' of
                              None \<Rightarrow> JInt 0 | Some v \<Rightarrow> if truthy v then v else JInt 0)
                = Inr notional"
      by (simp add: notional_field_def notional_default)
    moreover have "side_of ext key pos =
        (if \<exists>pre suf. lower key = pre @ ''buy'' @ suf then ''long'' else ''short'')"
      using False by (simp add: side_of_def legacy_side_def str_contains_iff)
    ultimately show ?thesis
      using False row by (simp add: view_of_simps is_current_variant_def)
  qed
qed


theorem variant_dispatch_witness:
  "(\<exists>rows. normalize_positions example_externals example_session example_current_positions
       = Inr rows \<and> dict_has (snd (example_current_positions ! 1)) ''side'' \<and>
       Type (rows ! 1) = SHORT \<and> py_float example_externals (JInt 1000) = Inr (Notional (rows ! 1)))
   \<and>
   (\<exists>rows. normalize_positions example_externals example_session example_legacy_positions
       = Inr rows \<and> \<not> dict_has (snd (example_legacy_positions ! 0)) ''side'' \<and>
       \<not> dict_has (snd (example_legacy_positions ! 0)) ''notional_usdt'' \<and>
       Type (rows ! 0) = LONG \<and> py_float example_externals (JInt 500) = Inr (Notional (rows ! 0)))"
proof -
  have len1: "1 < length example_current_positions"
    by (simp add: example_current_positions_def)
  have nth1: "example_current_positions ! 1 =
      (''ETH/USDT:USDT'',
       [(''side'', JStr ''SHORT''), (''notional_usdt'', JInt 1000),
        (''entry_price'', JInt 100), (''leverage'', JInt 10)])"
    by (simp add: example_current_positions_def)
  have len0: "0 < length example_legacy_positions"
    by (simp add: example_legacy_positions_def)
  have nth0: "example_legacy_positions ! 0 =
      (''BTC/USDT:USDT_buy'',
       [(''qty'', JInt 500), (''entry_price'', JInt 100), (''leverage'', JInt 0)])"
    by (simp add: example_legacy_positions_def)
  have cur: ?thesis if "True"
    using variant_dispatch [OF example_current_rows len1 nth1]
      variant_dispatch [OF example_legacy_rows len0 nth0]
      example_current_rows example_legacy_rows nth1 nth0
    by (simp add: dict_has_def)
  then show ?thesis by simp
qed

text \<open>
  C8. Two rows normalized under the same latest price, with the same entry price, notional
  and leverage, one long and one short: the profit and loss of the short row is the
  negation of that of the long row.
\<close>

theorem short_pnl_negates_long:
  assumes "normalize_positions ext ss positions1 = Inr rows1"
    and "normalize_positions ext ss positions2 = Inr rows2"
    and "long_row \<in> set rows1" and "short_row \<in> set rows2"
    and "Type long_row = LONG" and "Type short_row = SHORT"
    and "Entry short_row = Entry long_row" and "Notional short_row = Notional long_row"
    and "Leverage short_row = Leverage long_row"
  shows "PnL short_row = - PnL long_row"
proof -
  let ?lp = "session_get ss ''latest_price''"
  from normalize_positions_mem [OF assms(1,3)] obtain k1 p1 where
    "normalize_position ext ?lp k1 p1 = Inr long_row" by blast
  from row_pnl [OF this] assms(5)
  have l: "PnL long_row = pnl_formula ?lp (Entry long_row) True (Notional long_row)" by simp
  from normalize_positions_mem [OF assms(2,4)] obtain k2 p2 where
    "normalize_position ext ?lp k2 p2 = Inr short_row" by blast
  from row_pnl [OF this] assms(6,7,8)
  have s: "PnL short_row = pnl_formula ?lp (Entry long_row) False (Notional long_row)" by simp
  have "pnl_formula ?lp (Entry long_row) False (Notional long_row) =
        - pnl_formula ?lp (Entry long_row) True (Notional long_row)"
  proof -
    have "(e - x) / e * n = - ((x - e) / e * n)" for e x n :: real
      by (metis minus_diff_eq minus_divide_left mult_minus_left)
    then show ?thesis by (simp add: pnl_formula_def split: option.splits)
  qed
  with l s show ?thesis by simp
qed

theorem short_pnl_negates_long_witness:
  "(\<exists>rows. normalize_positions example_externals example_session example_current_positions
       = Inr rows \<and> Type (rows ! 0) = LONG \<and> Type (rows ! 1) = SHORT \<and>
       Entry (rows ! 1) = Entry (rows ! 0) \<and> Notional (rows ! 1) = Notional (rows ! 0) \<and>
       Leverage (rows ! 1) = Leverage (rows ! 0) \<and>
       PnL (rows ! 0) = 100 \<and> PnL (rows ! 1) = - PnL (rows ! 0))"
proof -
  let ?l = "\<lparr> Symbol = ''BTC/USDT:USDT'', Type = LONG, Collateral = 100, Leverage = 10,
            Notional = 1000, Entry = 100, PnL = 100, ROI_pct = 100 \<rparr>"
  let ?s = "\<lparr> Symbol = ''ETH/USDT:USDT'', Type = SHORT, Collateral = 100, Leverage = 10,
            Notional = 1000, Entry = 100, PnL = - 100, ROI_pct = - 100 \<rparr>"
  have ml: "?l \<in> set [?l, ?s]" and ms: "?s \<in> set [?l, ?s]" by simp_all
  have "PnL ?s = - PnL ?l"
    by (rule short_pnl_negates_long [OF example_current_rows example_current_rows ml ms])
      simp_all
  with example_current_rows show ?thesis by simp
qed

text \<open>
  C9. A current-variant long position with entry price 100, notional 1000 and leverage 10,
  under a latest price of 110, is normalized to collateral 100, profit and loss 100 and
  return 100.
\<close>

theorem current_long_example:
  assumes "is_current_variant pos"
    and "current_side ext pos = ''long''"
    and "parse_entry_price ext pos = Inr 100"
    and "session_get ss ''latest_price'' = Some 110"
    and "py_float ext (py_or (dict_get pos ''notional_usdt'' (JInt 0)) (JInt 0)) = Inr 1000"
    and "parse_leverage ext pos = Inr 10"
  shows "normalize_positions ext ss [(key, pos)] =
           Inr [\<lparr> Symbol = key, Type = LONG, Collateral = 100, Leverage = 10,
                  Notional = 1000, Entry = 100, PnL = 100, ROI_pct = 100 \<rparr>] \<and>
         (\<forall>positions rows i.
            normalize_positions ext ss positions = Inr rows \<and>
            i < length positions \<and> positions ! i = (key, pos) \<longrightarrow>
            Collateral (rows ! i) = 100 \<and> PnL (rows ! i) = 100 \<and> ROI_pct (rows ! i) = 100)"
proof -
  have nf: "py_float ext (py_or (dict_get pos (notional_field pos) (JInt 0)) (JInt 0)) = Inr 1000"
    using assms(1,5) by (simp add: notional_field_def)
  have v: "view_of (Some 110) key (side_of ext key pos) 10 100 1000 =
      \<lparr> Symbol = key, Type = LONG, Collateral = 100, Leverage = 10,
        Notional = 1000, Entry = 100, PnL = 100, ROI_pct = 100 \<rparr>"
    using assms(1,2)
    by (simp add: view_of_def side_of_def make_row_def collateral_formula_def pnl_formula_def
        roi_formula_def)
  have one: "normalize_position ext (session_get ss ''latest_price'') key pos =
      Inr \<lparr> Symbol = key, Type = LONG, Collateral = 100, Leverage = 10,
        Notional = 1000, Entry = 100, PnL = 100, ROI_pct = 100 \<rparr>"
    using normalize_position_eq [OF assms(6,3) nf, of "Some 110" key] v assms(4) by simp
  have "normalize_positions ext ss [(key, pos)] =
           Inr [\<lparr> Symbol = key, Type = LONG, Collateral = 100, Leverage = 10,
                  Notional = 1000, Entry = 100, PnL = 100, ROI_pct = 100 \<rparr>]"
    using one by (simp add: normalize_positions_def ebind_def)
  moreover have "Collateral (rows ! i) = 100 \<and> PnL (rows ! i) = 100 \<and> ROI_pct (rows ! i) = 100"
    if "normalize_positions ext ss positions = Inr rows"
      and "i < length positions" and "positions ! i = (key, pos)" for positions rows i
  proof -
    from normalize_positions_nth [OF that] one
    have "rows ! i = \<lparr> Symbol = key, Type = LONG, Collateral = 100, Leverage = 10,
        Notional = 1000, Entry = 100, PnL = 100, ROI_pct = 100 \<rparr>" by simp
    then show ?thesis by simp
  qed
  ultimately show ?thesis by blast
qed

theorem current_long_example_witness:
  "is_current_variant (snd (example_current_positions ! 0)) \<and>
   current_side example_externals (snd (example_current_positions ! 0)) = ''long'' \<and>
   normalize_positions example_externals example_session [example_current_positions ! 0] =
     Inr [\<lparr> Symbol = ''BTC/USDT:USDT'', Type = LONG, Collateral = 100, Leverage = 10,
            Notional = 1000, Entry = 100, PnL = 100, ROI_pct = 100 \<rparr>]"
proof -
  let ?pos = "[(''side'', JStr ''long''), (''notional_usdt'', JInt 1000),
        (''entry_price'', JInt 100), (''leverage'', JInt 10)]"
  have nth: "example_current_positions ! 0 = (''BTC/USDT:USDT'', ?pos)"
    by (simp add: example_current_positions_def)
  have h1: "is_current_variant ?pos"
    by (simp add: is_current_variant_def dict_has_def)
  have h2: "current_side example_externals ?pos = ''long''"
    by (simp add: current_side_def dict_get_def lower_def lower_char_def)
  have h3: "parse_entry_price example_externals ?pos = Inr 100"
    by (simp add: parse_entry_price_def dict_get_def py_or_def)
  have h4: "session_get example_session ''latest_price'' = Some 110"
    by (simp add: session_get_def example_session_def)
  have h5: "py_float example_externals (py_or (dict_get ?pos ''notional_usdt'' (JInt 0)) (JInt 0))
      = Inr 1000"
    by (simp add: dict_get_def py_or_def)
  have h6: "parse_leverage example_externals ?pos = Inr 10"
    by (simp add: parse_leverage_def dict_get_def py_or_def)
  from current_long_example [OF h1 h2 h3 h4 h5 h6, of "''BTC/USDT:USDT''"] h1 h2 nth
  show ?thesis by simp
qed

section \<open>Properties of the fetchers\<close>

text \<open>
  C4. For the logs and for the trade history: when the query ordered by \<^verbatim>\<open>created_at\<close>
  raises, the fetcher sends exactly one more query, ordered by \<^verbatim>\<open>timestamp\<close>; when that
  one raises too, the fetcher raises its exception and returns no list.
\<close>

theorem fetch_fallback:
  "(\<forall>e1. execute \<lparr> q_table = ''bot_logs'', q_order = ''created_at'', q_desc = True,
                    q_limit = limit \<rparr> = Inl e1 \<longrightarrow>
      snd (fetch_bot_logs execute limit) =
        [\<lparr> q_table = ''bot_logs'', q_order = ''created_at'', q_desc = True, q_limit = limit \<rparr>,
         \<lparr> q_table = ''bot_logs'', q_order = ''timestamp'', q_desc = True, q_limit = limit \<rparr>] \<and>
      (\<forall>e2. execute \<lparr> q_table = ''bot_logs'', q_order = ''timestamp'', q_desc = True,
                       q_limit = limit \<rparr> = Inl e2 \<longrightarrow>
         fst (fetch_bot_logs execute limit) = Inl e2))
   \<and>
   (\<forall>e1. execute \<lparr> q_table = ''trade_history'', q_order = ''created_at'', q_desc = True,
                    q_limit = limit \<rparr> = Inl e1 \<longrightarrow>
      snd (fetch_trade_history execute limit) =
        [\<lparr> q_table = ''trade_history'', q_order = ''created_at'', q_desc = True,
           q_limit = limit \<rparr>,
         \<lparr> q_table = ''trade_history'', q_order = ''timestamp'', q_desc = True,
           q_limit = limit \<rparr>] \<and>
      (\<forall>e2. execute \<lparr> q_table = ''trade_history'', q_order = ''timestamp'', q_desc = True,
                       q_limit = limit \<rparr> = Inl e2 \<longrightarrow>
         fst (fetch_trade_history execute limit) = Inl e2))"
  by (auto simp: fetch_bot_logs_def fetch_trade_history_def Let_def split: sum.splits)

theorem fetch_fallback_witness:
  "example_failing_store \<lparr> q_table = ''bot_logs'', q_order = ''created_at'', q_desc = True,
       q_limit = 200 \<rparr> = Inl ''no column created_at'' \<and>
   fetch_bot_logs example_failing_store 200 =
     (Inl ''store is down'',
      [\<lparr> q_table = ''bot_logs'', q_order = ''created_at'', q_desc = True, q_limit = 200 \<rparr>,
       \<lparr> q_table = ''bot_logs'', q_order = ''timestamp'', q_desc = True, q_limit = 200 \<rparr>]) \<and>
   fetch_trade_history example_failing_store 200 =
     (Inl ''store is down'',
      [\<lparr> q_table = ''trade_history'', q_order = ''created_at'', q_desc = True, q_limit = 200 \<rparr>,
       \<lparr> q_table = ''trade_history'', q_order = ''timestamp'', q_desc = True,
         q_limit = 200 \<rparr>])"
proof -
  have a: "example_failing_store \<lparr> q_table = t, q_order = ''created_at'', q_desc = True,
       q_limit = 200 \<rparr> = Inl ''no column created_at''" for t
    by (simp add: example_failing_store_def)
  have b: "example_failing_store \<lparr> q_table = t, q_order = ''timestamp'', q_desc = True,
       q_limit = 200 \<rparr> = Inl ''store is down''" for t
    by (simp add: example_failing_store_def)
  from fetch_fallback [of example_failing_store 200] a b
  have "snd (fetch_bot_logs example_failing_store 200) =
        [\<lparr> q_table = ''bot_logs'', q_order = ''created_at'', q_desc = True, q_limit = 200 \<rparr>,
         \<lparr> q_table = ''bot_logs'', q_order = ''timestamp'', q_desc = True, q_limit = 200 \<rparr>]"
    "fst (fetch_bot_logs example_failing_store 200) = Inl ''store is down''"
    "snd (fetch_trade_history example_failing_store 200) =
        [\<lparr> q_table = ''trade_history'', q_order = ''created_at'', q_desc = True,
           q_limit = 200 \<rparr>,
         \<lparr> q_table = ''trade_history'', q_order = ''timestamp'', q_desc = True,
           q_limit = 200 \<rparr>]"
    "fst (fetch_trade_history example_failing_store 200) = Inl ''store is down''"
    by blast+
  with a show ?thesis by (simp add: prod_eq_iff)
qed

section \<open>Properties of the latest price\<close>

lemma store_latest_price_empty:
  "store_latest_price ext [] ss = Inr (ss(''latest_price'' \<mapsto> None))"
  by (simp add: store_latest_price_def latest_price_raw_def)

lemma store_latest_price_missing:
  "map_of log0 ''market_price'' = None \<or> map_of log0 ''market_price'' = Some JNull \<Longrightarrow>
   store_latest_price ext (log0 # rest) ss = Inr (ss(''latest_price'' \<mapsto> None))"
  by (auto simp: store_latest_price_def latest_price_raw_def dict_get_def)

lemma store_latest_price_float:
  "map_of log0 ''market_price'' = Some m \<Longrightarrow> m \<noteq> JNull \<Longrightarrow>
   store_latest_price ext (log0 # rest) ss =
     (case py_float ext m of Inl e \<Rightarrow> Inl e
      | Inr p \<Rightarrow> Inr (ss(''latest_price'' \<mapsto> Some p)))"
  by (simp add: store_latest_price_def latest_price_raw_def dict_get_def ebind_def)

lemma session_price_pnl:
  assumes "normalize_positions ext ss positions = Inr rows" and "i < length positions"
  shows "PnL (rows ! i) =
           pnl_formula (session_get ss ''latest_price'') (Entry (rows ! i))
             (Type (rows ! i) = LONG) (Notional (rows ! i))"
proof -
  have "positions ! i = (fst (positions ! i), snd (positions ! i))" by simp
  from normalize_positions_nth [OF assms this]
  have "normalize_position ext (session_get ss ''latest_price'') (fst (positions ! i))
          (snd (positions ! i)) = Inr (rows ! i)" by simp
  then show ?thesis by (rule row_pnl)
qed

text \<open>
  C10. The latest price is the \<^verbatim>\<open>market_price\<close> field of the first record of the fetched
  logs, in store order, coerced to float: the session state holds it, the metric shows it
  (\<^verbatim>\<open>"N/A"\<close> for a price of 0), and every row of \<^verbatim>\<open>normalize_positions\<close> has its profit
  and loss computed from it; when the coercion raises, nothing is stored. When the logs are
  empty or the first record has no \<^verbatim>\<open>market_price\<close> (no such key, or a null value), the
  stored value is \<^verbatim>\<open>None\<close>, the metric shows \<^verbatim>\<open>"N/A"\<close> and every row of
  \<^verbatim>\<open>normalize_positions\<close> has a profit and loss of 0.
\<close>

theorem latest_price_source:
  "(\<forall>log0 rest m p.
      logs = log0 # rest \<and> map_of log0 ''market_price'' = Some m \<and> m \<noteq> JNull \<and>
      py_float ext m = Inr p \<longrightarrow>
      (\<exists>ss'. store_latest_price ext logs ss = Inr ss' \<and>
             ss' = ss(''latest_price'' \<mapsto> Some p) \<and>
             session_get ss' ''latest_price'' = Some p \<and>
             latest_price_metric ss' = Inr (if p \<noteq> 0 then Dollars p else NA) \<and>
             (\<forall>positions rows i.
                normalize_positions ext ss' positions = Inr rows \<and> i < length positions \<longrightarrow>
                PnL (rows ! i) =
                  (if p = 0 \<or> Entry (rows ! i) = 0 then 0
                   else if Type (rows ! i) = LONG
                   then (p - Entry (rows ! i)) / Entry (rows ! i) * Notional (rows ! i)
                   else (Entry (rows ! i) - p) / Entry (rows ! i) * Notional (rows ! i)))))
   \<and>
   (\<forall>log0 rest m e.
      logs = log0 # rest \<and> map_of log0 ''market_price'' = Some m \<and> m \<noteq> JNull \<and>
      py_float ext m = Inl e \<longrightarrow>
      store_latest_price ext logs ss = Inl e)
   \<and>
   (logs = [] \<or>
    (\<exists>log0 rest. logs = log0 # rest \<and>
       (map_of log0 ''market_price'' = None \<or> map_of log0 ''market_price'' = Some JNull)) \<longrightarrow>
      (\<exists>ss'. store_latest_price ext logs ss = Inr ss' \<and>
             ss' = ss(''latest_price'' \<mapsto> None) \<and>
             session_get ss' ''latest_price'' = None \<and>
             latest_price_metric ss' = Inr NA \<and>
             (\<forall>positions rows i.
                normalize_positions ext ss' positions = Inr rows \<and> i < length positions \<longrightarrow>
                PnL (rows ! i) = 0)))"
proof (intro conjI allI impI)
  fix log0 rest m p
  assume h: "logs = log0 # rest \<and> map_of log0 ''market_price'' = Some m \<and> m \<noteq> JNull \<and>
      py_float ext m = Inr p"
  let ?ss = "ss(''latest_price'' \<mapsto> Some p)"
  from h have "store_latest_price ext logs ss = Inr ?ss"
    by (simp add: store_latest_price_float)
  moreover have g: "session_get ?ss ''latest_price'' = Some p"
    by (simp add: session_get_def)
  moreover have "latest_price_metric ?ss = Inr (if p \<noteq> 0 then Dollars p else NA)"
    by (simp add: latest_price_metric_def)
  moreover have "\<forall>positions rows i.
      normalize_positions ext ?ss positions = Inr rows \<and> i < length positions \<longrightarrow>
      PnL (rows ! i) =
        (if p = 0 \<or> Entry (rows ! i) = 0 then 0
         else if Type (rows ! i) = LONG
         then (p - Entry (rows ! i)) / Entry (rows ! i) * Notional (rows ! i)
         else (Entry (rows ! i) - p) / Entry (rows ! i) * Notional (rows ! i))"
  proof (intro allI impI)
    fix positions rows i
    assume "normalize_positions ext ?ss positions = Inr rows \<and> i < length positions"
    then have "PnL (rows ! i) =
        pnl_formula (session_get ?ss ''latest_price'') (Entry (rows ! i))
          (Type (rows ! i) = LONG) (Notional (rows ! i))"
      using session_price_pnl by blast
    then show "PnL (rows ! i) =
        (if p = 0 \<or> Entry (rows ! i) = 0 then 0
         else if Type (rows ! i) = LONG
         then (p - Entry (rows ! i)) / Entry (rows ! i) * Notional (rows ! i)
         else (Entry (rows ! i) - p) / Entry (rows ! i) * Notional (rows ! i))"
      by (simp add: g pnl_formula_def)
  qed
  ultimately show "\<exists>ss'. store_latest_price ext logs ss = Inr ss' \<and>
             ss' = ss(''latest_price'' \<mapsto> Some p) \<and>
             session_get ss' ''latest_price'' = Some p \<and>
             latest_price_metric ss' = Inr (if p \<noteq> 0 then Dollars p else NA) \<and>
             (\<forall>positions rows i.
                normalize_positions ext ss' positions = Inr rows \<and> i < length positions \<longrightarrow>
                PnL (rows ! i) =
                  (if p = 0 \<or> Entry (rows ! i) = 0 then 0
                   else if Type (rows ! i) = LONG
                   then (p - Entry (rows ! i)) / Entry (rows ! i) * Notional (rows ! i)
                   else (Entry (rows ! i) - p) / Entry (rows ! i) * Notional (rows ! i)))"
    by blast
next
  fix log0 rest m e
  assume "logs = log0 # rest \<and> map_of log0 ''market_price'' = Some m \<and> m \<noteq> JNull \<and>
      py_float ext m = Inl e"
  then show "store_latest_price ext logs ss = Inl e"
    by (simp add: store_latest_price_float)
next
  assume h: "logs = [] \<or>
    (\<exists>log0 rest. logs = log0 # rest \<and>
       (map_of log0 ''market_price'' = None \<or> map_of log0 ''market_price'' = Some JNull))"
  let ?ss = "ss(''latest_price'' \<mapsto> None)"
  from h have "store_latest_price ext logs ss = Inr ?ss"
    using store_latest_price_empty store_latest_price_missing by blast
  moreover have g: "session_get ?ss ''latest_price'' = None"
    by (simp add: session_get_def)
  moreover have "latest_price_metric ?ss = Inr NA"
    by (simp add: latest_price_metric_def)
  moreover have "\<forall>positions rows i.
      normalize_positions ext ?ss positions = Inr rows \<and> i < length positions \<longrightarrow>
      PnL (rows ! i) = 0"
  proof (intro allI impI)
    fix positions rows i
    assume "normalize_positions ext ?ss positions = Inr rows \<and> i < length positions"
    then have "PnL (rows ! i) =
        pnl_formula (session_get ?ss ''latest_price'') (Entry (rows ! i))
          (Type (rows ! i) = LONG) (Notional (rows ! i))"
      using session_price_pnl by blast
    then show "PnL (rows ! i) = 0" by (simp add: g pnl_formula_def)
  qed
  ultimately show "\<exists>ss'. store_latest_price ext logs ss = Inr ss' \<and>
             ss' = ss(''latest_price'' \<mapsto> None) \<and>
             session_get ss' ''latest_price'' = None \<and>
             latest_price_metric ss' = Inr NA \<and>
             (\<forall>positions rows i.
                normalize_positions ext ss' positions = Inr rows \<and> i < length positions \<longrightarrow>
                PnL (rows ! i) = 0)"
    by blast
qed

lemma example_legacy_rows_no_price:
  "normalize_positions example_externals (Map.empty(''latest_price'' \<mapsto> None))
     example_legacy_positions =
     Inr [\<lparr> Symbol = ''BTC/USDT:USDT_buy'', Type = LONG, Collateral = 500, Leverage = 1,
            Notional = 500, Entry = 100, PnL = 0, ROI_pct = 0 \<rparr>]"
  by (simp add: eval_defs example_legacy_positions_def)

lemma example_legacy_rows_price:
  "normalize_positions example_externals (Map.empty(''latest_price'' \<mapsto> Some 110))
     example_legacy_positions =
     Inr [\<lparr> Symbol = ''BTC/USDT:USDT_buy'', Type = LONG, Collateral = 500, Leverage = 1,
            Notional = 500, Entry = 100, PnL = 50, ROI_pct = 10 \<rparr>]"
  by (simp add: eval_defs example_legacy_positions_def)

theorem latest_price_source_witness:
  "(map_of (hd example_logs) ''market_price'' = Some (JInt 110) \<and>
    store_latest_price example_externals example_logs Map.empty =
      Inr (Map.empty(''latest_price'' \<mapsto> Some 110)) \<and>
    latest_price_metric (Map.empty(''latest_price'' \<mapsto> Some 110)) = Inr (Dollars 110) \<and>
    (\<exists>rows. normalize_positions example_externals (Map.empty(''latest_price'' \<mapsto> Some 110))
         example_legacy_positions = Inr rows \<and>
       PnL (rows ! 0) = (110 - 100) / 100 * 500))
   \<and>
   (map_of (hd example_null_price_logs) ''market_price'' = Some JNull \<and>
    store_latest_price example_externals example_null_price_logs Map.empty =
      Inr (Map.empty(''latest_price'' \<mapsto> None)) \<and>
    latest_price_metric (Map.empty(''latest_price'' \<mapsto> None)) = Inr NA \<and>
    (\<exists>rows. normalize_positions example_externals (Map.empty(''latest_price'' \<mapsto> None))
         example_legacy_positions = Inr rows \<and> PnL (rows ! 0) = 0))
   \<and>
   store_latest_price example_externals [] Map.empty =
     Inr (Map.empty(''latest_price'' \<mapsto> None))"
proof -
  let ?none = "Map.empty(''latest_price'' \<mapsto> (None :: real option))"
  let ?some = "Map.empty(''latest_price'' \<mapsto> Some (110 :: real))"
  have len: "0 < length example_legacy_positions"
    by (simp add: example_legacy_positions_def)
  have a: "example_logs = hd example_logs # tl example_logs \<and>
      map_of (hd example_logs) ''market_price'' = Some (JInt 110) \<and> JInt 110 \<noteq> JNull \<and>
      py_float example_externals (JInt 110) = Inr 110"
    by (simp add: example_logs_def)
  have b: "example_null_price_logs = [] \<or>
      (\<exists>log0 rest. example_null_price_logs = log0 # rest \<and>
         (map_of log0 ''market_price'' = None \<or> map_of log0 ''market_price'' = Some JNull))"
    by (simp add: example_null_price_logs_def)
  have b': "map_of (hd example_null_price_logs) ''market_price'' = Some JNull"
    by (simp add: example_null_price_logs_def)
  have c: "([]::pydict list) = [] \<or>
      (\<exists>log0 rest. ([]::pydict list) = log0 # rest \<and>
         (map_of log0 ''market_price'' = None \<or> map_of log0 ''market_price'' = Some JNull))"
    by simp
  note t1 = latest_price_source [of example_logs example_externals Map.empty]
  note t2 = latest_price_source [of example_null_price_logs example_externals Map.empty]
  note t3 = latest_price_source [of "[]" example_externals Map.empty]
  from t1 a have s1: "store_latest_price example_externals example_logs Map.empty = Inr ?some"
    and m1: "latest_price_metric ?some = Inr (if (110::real) \<noteq> 0 then Dollars 110 else NA)"
    and p1: "\<forall>positions rows i.
        normalize_positions example_externals ?some positions = Inr rows \<and>
        i < length positions \<longrightarrow>
        PnL (rows ! i) =
          (if (110::real) = 0 \<or> Entry (rows ! i) = 0 then 0
           else if Type (rows ! i) = LONG
           then (110 - Entry (rows ! i)) / Entry (rows ! i) * Notional (rows ! i)
           else (Entry (rows ! i) - 110) / Entry (rows ! i) * Notional (rows ! i))"
    by blast+
  from p1 example_legacy_rows_price len
  have "PnL ([\<lparr> Symbol = ''BTC/USDT:USDT_buy'', Type = LONG, Collateral = 500, Leverage = 1,
            Notional = 500, Entry = 100, PnL = 50, ROI_pct = 10 \<rparr>] ! 0) = (110 - 100) / 100 * 500"
    by simp
  with example_legacy_rows_price
  have r1: "\<exists>rows. normalize_positions example_externals ?some example_legacy_positions
        = Inr rows \<and> PnL (rows ! 0) = (110 - 100) / 100 * 500"
    by blast
  from t2 b have s2: "store_latest_price example_externals example_null_price_logs Map.empty
        = Inr ?none"
    and m2: "latest_price_metric ?none = Inr NA"
    and p2: "\<forall>positions rows i.
        normalize_positions example_externals ?none positions = Inr rows \<and>
        i < length positions \<longrightarrow> PnL (rows ! i) = 0"
    by blast+
  from p2 example_legacy_rows_no_price len
  have r2: "\<exists>rows. normalize_positions example_externals ?none example_legacy_positions
        = Inr rows \<and> PnL (rows ! 0) = 0"
    by blast
  from t3 c have s3: "store_latest_price example_externals [] Map.empty = Inr ?none"
    by blast
  from a s1 m1 r1 b' s2 m2 r2 s3 show ?thesis by simp
qed

section \<open>Properties of the decision timeline\<close>

lemma chart_row_of_Some:
  "chart_row_of ext logs (i, r) = Some row \<longleftrightarrow>
     (\<exists>t. safe_to_datetime ext (chart_time_cell logs r) = Some t \<and>
          row = \<lparr> idx = i, created_at = t, intent_norm = intent_norm_of ext logs r,
                  market_price = chart_price ext logs r \<rparr>)"
  by (auto simp: chart_row_of_def split: option.splits)

lemma map_filter_mem:
  "y \<in> set (List.map_filter f xs) \<longleftrightarrow> (\<exists>x \<in> set xs. f x = Some y)"
  by (induction xs) (auto split: option.splits)

lemma df_chart_mem:
  "row \<in> set (df_chart ext logs) \<longleftrightarrow>
     (\<exists>i<length logs. chart_row_of ext logs (i, logs ! i) = Some row)"
proof -
  have "row \<in> set (df_chart ext logs) \<longleftrightarrow>
        (\<exists>p \<in> set (enumerate 0 logs). chart_row_of ext logs p = Some row)"
    by (simp add: df_chart_def map_filter_mem)
  also have "\<dots> \<longleftrightarrow> (\<exists>i<length logs. chart_row_of ext logs (i, logs ! i) = Some row)"
    by (force simp: in_set_enumerate_eq)
  finally show ?thesis .
qed

lemma df_chart_row:
  assumes "row \<in> set (df_chart ext logs)"
  shows "idx row < length logs \<and>
         safe_to_datetime ext (chart_time_cell logs (logs ! idx row)) = Some (created_at row) \<and>
         intent_norm row = intent_norm_of ext logs (logs ! idx row)"
proof -
  from assms obtain i where "i < length logs" "chart_row_of ext logs (i, logs ! i) = Some row"
    by (auto simp: df_chart_mem)
  then show ?thesis by (auto simp: chart_row_of_Some)
qed

lemma selected_timestamp_chart:
  assumes "r \<in> set logs" and "safe_to_datetime ext (selected_timestamp r) = None"
  shows "safe_to_datetime ext (chart_time_cell logs r) = None"
proof (cases "has_column logs ''created_at''")
  case True
  with assms(2) show ?thesis
    by (cases "map_of r ''created_at''")
      (simp_all add: chart_time_cell_def selected_timestamp_def safe_to_datetime_def)
next
  case False
  with assms(1) have "map_of r ''created_at'' = None"
    by (auto simp: has_column_def list_ex_iff dict_has_def)
  with assms(2) False show ?thesis
    by (simp add: chart_time_cell_def selected_timestamp_def safe_to_datetime_def)
qed

lemma dropped_from_chart:
  assumes "i < length logs"
    and "safe_to_datetime ext (chart_time_cell logs (logs ! i)) = None"
  shows "i \<notin> idx ` set (df_chart ext logs)"
proof
  assume "i \<in> idx ` set (df_chart ext logs)"
  then obtain row where "row \<in> set (df_chart ext logs)" "idx row = i" by auto
  with df_chart_row [of row ext logs] assms(2) show False by simp
qed

lemma upper_group_names:
  "upper ext ''enter_long'' = ''ENTER_LONG''" "upper ext ''enter_short'' = ''ENTER_SHORT''"
  "upper ext ''add'' = ''ADD''" "upper ext ''reduce'' = ''REDUCE''"
  "upper ext ''reverse'' = ''REVERSE''" "upper ext ''flat'' = ''FLAT''"
  by (simp_all add: upper_def is_ascii_def upper_char_def)

lemma unmapped_not_group_name:
  assumes "upper ext s \<notin> set (map fst ACTION_INTENT_MAP)"
  shows "map_intent ext s = s" and "s \<noteq> ''enter_long''" and "s \<noteq> ''enter_short''"
    and "s \<noteq> ''add''" and "s \<noteq> ''reduce''" and "s \<noteq> ''reverse''"
proof -
  from assms have "map_of ACTION_INTENT_MAP (upper ext s) = None"
    by (simp add: map_of_eq_None_iff)
  then show "map_intent ext s = s" by (simp add: map_intent_def)
  show "s \<noteq> ''enter_long''" "s \<noteq> ''enter_short''" "s \<noteq> ''add''" "s \<noteq> ''reduce''"
    "s \<noteq> ''reverse''"
    using assms by (auto simp: upper_group_names ACTION_INTENT_MAP_def)
qed

lemma long_s_close_is_mapped:
  "\<not> is_ascii (''clo'' @ [CHR 0xC5, CHR 0xBF] @ ''e'') \<and>
   map_intent example_externals (''clo'' @ [CHR 0xC5, CHR 0xBF] @ ''e'') = ''flat''"
  by (simp add: map_intent_def upper_def is_ascii_def example_externals_def
      ACTION_INTENT_MAP_def)

lemma bot_decisions_Some:
  "bot_decisions ext logs = Inr (Some views) \<longleftrightarrow>
     logs \<noteq> [] \<and> has_column logs ''market_price'' \<and>
     views =
       \<lparr> chart = df_chart ext logs,
         buys = filter (\<lambda>r. intent_norm r = ''enter_long'') (df_chart ext logs),
         shorts = filter (\<lambda>r. intent_norm r = ''enter_short'') (df_chart ext logs),
         adds = filter (\<lambda>r. intent_norm r = ''add'') (df_chart ext logs),
         reduces = filter (\<lambda>r. intent_norm r = ''reduce'') (df_chart ext logs),
         exits = filter (\<lambda>r. intent_norm r \<in> set [''flat'', ''reverse'']) (df_chart ext logs),
         recent = map (recent_entry ext) (take 25 logs) \<rparr>"
  by (auto simp: bot_decisions_def px_line_def ebind_def Let_def)

lemma bot_decisions_returns:
  "has_column logs ''market_price'' \<Longrightarrow> \<exists>views. bot_decisions ext logs = Inr (Some views)"
  by (auto simp: bot_decisions_Some has_column_def)

lemma bot_decisions_raises:
  "logs \<noteq> [] \<Longrightarrow> \<not> has_column logs ''market_price'' \<Longrightarrow>
   bot_decisions ext logs = Inl ValueError"
  by (simp add: bot_decisions_def px_line_def ebind_def Let_def)

lemma example_df_chart:
  "df_chart example_externals example_logs =
     [\<lparr> idx = 1, created_at = 1704112496789000000, intent_norm = ''UNKNOWN_X'',
        market_price = None \<rparr>,
      \<lparr> idx = 0, created_at = 1704112556000000000, intent_norm = ''flat'',
        market_price = Some 110 \<rparr>]"
  by (simp add: df_chart_def example_logs_def enumerate_eq_zip List.map_filter_def
      chart_row_of_def safe_to_datetime_def chart_time_cell_def has_column_def dict_has_def
      example_externals_def intent_norm_of_def astype_str_def map_intent_def
      ACTION_INTENT_MAP_def upper_def is_ascii_def upper_char_def chart_price_def upt_rec)

lemma example_mixed_df_chart:
  "df_chart example_externals example_mixed_logs =
     [\<lparr> idx = 1, created_at = 1704112496789000000, intent_norm = ''nan'',
        market_price = Some 109 \<rparr>,
      \<lparr> idx = 0, created_at = 1704112556000000000, intent_norm = ''flat'',
        market_price = Some 110 \<rparr>]"
  by (simp add: df_chart_def example_mixed_logs_def enumerate_eq_zip List.map_filter_def
      chart_row_of_def safe_to_datetime_def chart_time_cell_def has_column_def dict_has_def
      example_externals_def intent_norm_of_def astype_str_def map_intent_def
      ACTION_INTENT_MAP_def upper_def is_ascii_def upper_char_def chart_price_def upt_rec)

lemma example_recent_rows:
  "map (recent_entry example_externals) (take 25 example_logs) =
     [\<lparr> Time = ''12:35:56'', Decision = JStr ''flat'', Thesis = [] \<rparr>,
      \<lparr> Time = ''12:34:56'', Decision = JStr ''UNKNOWN_X'', Thesis = [] \<rparr>,
      \<lparr> Time = ''not-a-date'', Decision = JStr ''ENTER_LONG'', Thesis = [] \<rparr>]"
  by (simp add: recent_entry_def example_logs_def dict_get_def py_or_def Let_def)

lemma example_bot_decisions:
  "bot_decisions example_externals example_logs =
     Inr (Some
       \<lparr> chart =
           [\<lparr> idx = 1, created_at = 1704112496789000000, intent_norm = ''UNKNOWN_X'',
              market_price = None \<rparr>,
            \<lparr> idx = 0, created_at = 1704112556000000000, intent_norm = ''flat'',
              market_price = Some 110 \<rparr>],
         buys = [], shorts = [], adds = [], reduces = [],
         exits =
           [\<lparr> idx = 0, created_at = 1704112556000000000, intent_norm = ''flat'',
              market_price = Some 110 \<rparr>],
         recent =
           [\<lparr> Time = ''12:35:56'', Decision = JStr ''flat'', Thesis = [] \<rparr>,
            \<lparr> Time = ''12:34:56'', Decision = JStr ''UNKNOWN_X'', Thesis = [] \<rparr>,
            \<lparr> Time = ''not-a-date'', Decision = JStr ''ENTER_LONG'', Thesis = [] \<rparr>] \<rparr>)"
proof -
  have "example_logs \<noteq> []" "has_column example_logs ''market_price''"
    by (simp_all add: example_logs_def has_column_def dict_has_def)
  then show ?thesis
    by (simp add: bot_decisions_Some example_df_chart example_recent_rows)
qed

lemma example_mixed_bot_decisions:
  "bot_decisions example_externals example_mixed_logs =
     Inr (Some
       \<lparr> chart =
           [\<lparr> idx = 1, created_at = 1704112496789000000, intent_norm = ''nan'',
              market_price = Some 109 \<rparr>,
            \<lparr> idx = 0, created_at = 1704112556000000000, intent_norm = ''flat'',
              market_price = Some 110 \<rparr>],
         buys = [], shorts = [], adds = [], reduces = [],
         exits =
           [\<lparr> idx = 0, created_at = 1704112556000000000, intent_norm = ''flat'',
              market_price = Some 110 \<rparr>],
         recent =
           [\<lparr> Time = ''12:35:56'', Decision = JStr ''flat'', Thesis = [] \<rparr>,
            \<lparr> Time = ''12:34:56'', Decision = JStr ''flat'', Thesis = [] \<rparr>] \<rparr>)"
proof -
  have "example_mixed_logs \<noteq> []" "has_column example_mixed_logs ''market_price''"
    by (simp_all add: example_mixed_logs_def has_column_def dict_has_def)
  moreover have "map (recent_entry example_externals) (take 25 example_mixed_logs) =
      [\<lparr> Time = ''12:35:56'', Decision = JStr ''flat'', Thesis = [] \<rparr>,
       \<lparr> Time = ''12:34:56'', Decision = JStr ''flat'', Thesis = [] \<rparr>]"
    by (simp add: recent_entry_def example_mixed_logs_def dict_get_def py_or_def Let_def)
  ultimately show ?thesis
    by (simp add: bot_decisions_Some example_mixed_df_chart)
qed

text \<open>
  C2, as the code has it. In a pass whose section builds its views, take a record of the
  chart and the string \<open>s\<close> of its cell in the \<^verbatim>\<open>intent\<close> column, or in the \<^verbatim>\<open>action\<close>
  column when no fetched record has an \<^verbatim>\<open>intent\<close> key; a record without the key has the
  cell \<^verbatim>\<open>"nan"\<close> there. When \<open>s\<close>, upper-cased, is not a key of \<^verbatim>\<open>ACTION_INTENT_MAP\<close>, the
  normalized intent is \<open>s\<close> itself, unchanged and not lower-cased; the record is in none of
  the enter-long, enter-short, add and reduce groups, and it is in the exit/reverse group
  exactly when \<open>s\<close> is \<^verbatim>\<open>"flat"\<close>.
\<close>

theorem unmapped_intent_passthrough:
  assumes "bot_decisions ext logs = Inr (Some views)"
    and "row \<in> set (chart views)"
    and "(has_column logs ''intent'' \<and>
            s = astype_str ext (map_of (logs ! idx row) ''intent'')) \<or>
         (\<not> has_column logs ''intent'' \<and> has_column logs ''action'' \<and>
            s = astype_str ext (map_of (logs ! idx row) ''action''))"
    and "upper ext s \<notin> set (map fst ACTION_INTENT_MAP)"
  shows "intent_norm row = s \<and>
         row \<notin> set (buys views) \<and> row \<notin> set (shorts views) \<and>
         row \<notin> set (adds views) \<and> row \<notin> set (reduces views) \<and>
         (row \<in> set (exits views) \<longleftrightarrow> s = ''flat'')"
proof -
  from assms(1) have v: "chart views = df_chart ext logs"
    "buys views = filter (\<lambda>r. intent_norm r = ''enter_long'') (df_chart ext logs)"
    "shorts views = filter (\<lambda>r. intent_norm r = ''enter_short'') (df_chart ext logs)"
    "adds views = filter (\<lambda>r. intent_norm r = ''add'') (df_chart ext logs)"
    "reduces views = filter (\<lambda>r. intent_norm r = ''reduce'') (df_chart ext logs)"
    "exits views = filter (\<lambda>r. intent_norm r \<in> set [''flat'', ''reverse'']) (df_chart ext logs)"
    by (simp_all add: bot_decisions_Some)
  from assms(2) v(1) have mem: "row \<in> set (df_chart ext logs)" by simp
  from df_chart_row [OF mem]
  have "intent_norm row = intent_norm_of ext logs (logs ! idx row)" by simp
  with assms(3) have "intent_norm row = map_intent ext s"
    by (auto simp: intent_norm_of_def)
  with unmapped_not_group_name(1) [OF assms(4)] have n: "intent_norm row = s" by simp
  with unmapped_not_group_name(2-6) [OF assms(4)] mem show ?thesis
    by (simp add: v)
qed


theorem unmapped_intent_passthrough_witness:
  "has_column example_logs ''intent'' \<and>
   upper example_externals ''UNKNOWN_X'' \<notin> set (map fst ACTION_INTENT_MAP) \<and>
   upper example_externals ''flat'' \<notin> set (map fst ACTION_INTENT_MAP) \<and>
   (\<exists>views r0 r1. bot_decisions example_externals example_logs = Inr (Some views) \<and>
      chart views = [r1, r0] \<and>
      idx r1 = 1 \<and> intent_norm r1 = ''UNKNOWN_X'' \<and> r1 \<notin> set (exits views) \<and>
      idx r0 = 0 \<and> intent_norm r0 = ''flat'' \<and> r0 \<in> set (exits views)) \<and>
   has_column example_mixed_logs ''intent'' \<and>
   map_of (example_mixed_logs ! 1) ''intent'' = None \<and>
   map_of (example_mixed_logs ! 1) ''action'' = Some (JStr ''flat'') \<and>
   upper example_externals ''nan'' \<notin> set (map fst ACTION_INTENT_MAP) \<and>
   (\<exists>views r0 r1. bot_decisions example_externals example_mixed_logs = Inr (Some views) \<and>
      chart views = [r1, r0] \<and>
      idx r1 = 1 \<and> intent_norm r1 = ''nan'' \<and> r1 \<notin> set (exits views))"
proof -
  let ?r1 = "\<lparr> idx = 1, created_at = 1704112496789000000, intent_norm = ''UNKNOWN_X'',
        market_price = None \<rparr>"
  let ?r0 = "\<lparr> idx = 0, created_at = 1704112556000000000, intent_norm = ''flat'',
        market_price = Some 110 \<rparr>"
  let ?m1 = "\<lparr> idx = 1, created_at = 1704112496789000000, intent_norm = ''nan'',
        market_price = Some 109 \<rparr>"
  let ?v = "\<lparr> chart = [?r1, ?r0], buys = [], shorts = [], adds = [], reduces = [],
      exits = [?r0],
      recent =
        [\<lparr> Time = ''12:35:56'', Decision = JStr ''flat'', Thesis = [] \<rparr>,
         \<lparr> Time = ''12:34:56'', Decision = JStr ''UNKNOWN_X'', Thesis = [] \<rparr>,
         \<lparr> Time = ''not-a-date'', Decision = JStr ''ENTER_LONG'', Thesis = [] \<rparr>] \<rparr>"
  let ?w = "\<lparr> chart = [?m1, ?r0], buys = [], shorts = [], adds = [], reduces = [],
      exits = [?r0],
      recent =
        [\<lparr> Time = ''12:35:56'', Decision = JStr ''flat'', Thesis = [] \<rparr>,
         \<lparr> Time = ''12:34:56'', Decision = JStr ''flat'', Thesis = [] \<rparr>] \<rparr>"
  have col: "has_column example_logs ''intent''"
    by (simp add: has_column_def example_logs_def dict_has_def)
  have colm: "has_column example_mixed_logs ''intent''"
    by (simp add: has_column_def example_mixed_logs_def dict_has_def)
  have k1: "upper example_externals ''UNKNOWN_X'' \<notin> set (map fst ACTION_INTENT_MAP)"
    by (simp add: upper_def is_ascii_def upper_char_def ACTION_INTENT_MAP_def)
  have k0: "upper example_externals ''flat'' \<notin> set (map fst ACTION_INTENT_MAP)"
    by (simp add: upper_def is_ascii_def upper_char_def ACTION_INTENT_MAP_def)
  have kn: "upper example_externals ''nan'' \<notin> set (map fst ACTION_INTENT_MAP)"
    by (simp add: upper_def is_ascii_def upper_char_def ACTION_INTENT_MAP_def)
  have b: "bot_decisions example_externals example_logs = Inr (Some ?v)"
    by (rule example_bot_decisions)
  have bm: "bot_decisions example_externals example_mixed_logs = Inr (Some ?w)"
    by (rule example_mixed_bot_decisions)
  have m1: "?r1 \<in> set (chart ?v)" and m0: "?r0 \<in> set (chart ?v)"
    and mm: "?m1 \<in> set (chart ?w)"
    by simp_all
  have s1: "(has_column example_logs ''intent'' \<and>
       ''UNKNOWN_X'' = astype_str example_externals (map_of (example_logs ! idx ?r1) ''intent'')) \<or>
     (\<not> has_column example_logs ''intent'' \<and> has_column example_logs ''action'' \<and>
       ''UNKNOWN_X'' = astype_str example_externals (map_of (example_logs ! idx ?r1) ''action''))"
    using col by (simp add: example_logs_def astype_str_def)
  have s0: "(has_column example_logs ''intent'' \<and>
       ''flat'' = astype_str example_externals (map_of (example_logs ! idx ?r0) ''intent'')) \<or>
     (\<not> has_column example_logs ''intent'' \<and> has_column example_logs ''action'' \<and>
       ''flat'' = astype_str example_externals (map_of (example_logs ! idx ?r0) ''action''))"
    using col by (simp add: example_logs_def astype_str_def)
  have sm: "(has_column example_mixed_logs ''intent'' \<and>
       ''nan'' = astype_str example_externals (map_of (example_mixed_logs ! idx ?m1) ''intent'')) \<or>
     (\<not> has_column example_mixed_logs ''intent'' \<and> has_column example_mixed_logs ''action'' \<and>
       ''nan'' = astype_str example_externals (map_of (example_mixed_logs ! idx ?m1) ''action''))"
    using colm by (simp add: example_mixed_logs_def astype_str_def)
  have f: "map_of (example_mixed_logs ! 1) ''intent'' = None"
    "map_of (example_mixed_logs ! 1) ''action'' = Some (JStr ''flat'')"
    by (simp_all add: example_mixed_logs_def)
  from unmapped_intent_passthrough [OF b m1 s1 k1]
  have e1: "?r1 \<notin> set (exits ?v)" by (elim conjE) simp
  from unmapped_intent_passthrough [OF b m0 s0 k0]
  have e0: "?r0 \<in> set (exits ?v)" by (elim conjE) simp
  from unmapped_intent_passthrough [OF bm mm sm kn]
  have em: "?m1 \<notin> set (exits ?w)" by (elim conjE) simp
  from b e1 e0 have first: "\<exists>views r0 r1.
      bot_decisions example_externals example_logs = Inr (Some views) \<and>
      chart views = [r1, r0] \<and>
      idx r1 = 1 \<and> intent_norm r1 = ''UNKNOWN_X'' \<and> r1 \<notin> set (exits views) \<and>
      idx r0 = 0 \<and> intent_norm r0 = ''flat'' \<and> r0 \<in> set (exits views)"
    by (intro exI [of _ ?v] exI [of _ ?r0] exI [of _ ?r1]) simp
  from bm em have second: "\<exists>views r0 r1.
      bot_decisions example_externals example_mixed_logs = Inr (Some views) \<and>
      chart views = [r1, r0] \<and>
      idx r1 = 1 \<and> intent_norm r1 = ''nan'' \<and> r1 \<notin> set (exits views)"
    by (intro exI [of _ ?w] exI [of _ ?r0] exI [of _ ?m1]) simp
  from col k1 k0 first colm f kn second show ?thesis by blast
qed

text \<open>
  The claim as the specification words it fails on two records: the normalized intent of
  \<^verbatim>\<open>"UNKNOWN_X"\<close> is \<^verbatim>\<open>"UNKNOWN_X"\<close>, not \<^verbatim>\<open>"unknown_x"\<close>, and \<^verbatim>\<open>"flat"\<close>, no key once
  upper-cased, is in the exit/reverse group.
\<close>

theorem unmapped_intent_passthrough_counterexample:
  "upper example_externals ''UNKNOWN_X'' \<notin> set (map fst ACTION_INTENT_MAP) \<and>
   upper example_externals ''flat'' \<notin> set (map fst ACTION_INTENT_MAP) \<and>
   lower ''UNKNOWN_X'' = ''unknown_x'' \<and>
   bot_decisions example_externals
     [[(''created_at'', JStr ''2024-01-01T12:35:56+00:00''), (''intent'', JStr ''flat''),
       (''market_price'', JInt 110)],
      [(''created_at'', JStr ''2024-01-01T12:34:56.789+00:00''),
       (''intent'', JStr ''UNKNOWN_X''), (''market_price'', JStr ''n/a'')]] =
     Inr (Some
       \<lparr> chart =
           [\<lparr> idx = 1, created_at = 1704112496789000000, intent_norm = ''UNKNOWN_X'',
              market_price = None \<rparr>,
            \<lparr> idx = 0, created_at = 1704112556000000000, intent_norm = ''flat'',
              market_price = Some 110 \<rparr>],
         buys = [], shorts = [], adds = [], reduces = [],
         exits =
           [\<lparr> idx = 0, created_at = 1704112556000000000, intent_norm = ''flat'',
              market_price = Some 110 \<rparr>],
         recent =
           [\<lparr> Time = ''12:35:56'', Decision = JStr ''flat'', Thesis = [] \<rparr>,
            \<lparr> Time = ''12:34:56'', Decision = JStr ''UNKNOWN_X'', Thesis = [] \<rparr>] \<rparr>)"
  by (simp add: bot_decisions_def px_line_def ebind_def Let_def
      df_chart_def enumerate_eq_zip List.map_filter_def
      chart_row_of_def safe_to_datetime_def chart_time_cell_def has_column_def dict_has_def
      example_externals_def intent_norm_of_def astype_str_def map_intent_def
      ACTION_INTENT_MAP_def upper_def is_ascii_def upper_char_def lower_def lower_char_def
      chart_price_def upt_rec recent_entry_def dict_get_def py_or_def)

text \<open>
  C6, as the code has it. In a pass whose section builds its views, a log record whose
  timestamp cell is not an instant (the \<^verbatim>\<open>created_at\<close> field if present, else
  \<^verbatim>\<open>timestamp\<close>; or the cell of the column the code reads) is not in the chart series and
  in none of the five marker groups. The recent-activity view is the rows of the first 25
  raw records in store order, whatever their timestamps: the record has its row there, at
  its own position, when it is among them, and the view has no row for a later record.
\<close>

theorem unparsable_timestamp_record:
  assumes "bot_decisions ext logs = Inr (Some views)"
    and "i < length logs"
    and "safe_to_datetime ext (selected_timestamp (logs ! i)) = None \<or>
         safe_to_datetime ext (chart_time_cell logs (logs ! i)) = None"
  shows "i \<notin> idx ` set (chart views) \<and>
         i \<notin> idx ` set (buys views) \<and>
         i \<notin> idx ` set (shorts views) \<and>
         i \<notin> idx ` set (adds views) \<and>
         i \<notin> idx ` set (reduces views) \<and>
         i \<notin> idx ` set (exits views) \<and>
         recent views = map (recent_entry ext) (take 25 logs) \<and>
         length (recent views) = min 25 (length logs) \<and>
         (i < 25 \<longrightarrow> recent views ! i = recent_entry ext (logs ! i))"
proof -
  from assms(1) have v: "chart views = df_chart ext logs"
    "buys views = filter (\<lambda>r. intent_norm r = ''enter_long'') (df_chart ext logs)"
    "shorts views = filter (\<lambda>r. intent_norm r = ''enter_short'') (df_chart ext logs)"
    "adds views = filter (\<lambda>r. intent_norm r = ''add'') (df_chart ext logs)"
    "reduces views = filter (\<lambda>r. intent_norm r = ''reduce'') (df_chart ext logs)"
    "exits views = filter (\<lambda>r. intent_norm r \<in> set [''flat'', ''reverse'']) (df_chart ext logs)"
    and r: "recent views = map (recent_entry ext) (take 25 logs)"
    by (simp_all add: bot_decisions_Some)
  from assms(2) have "logs ! i \<in> set logs" by simp
  with assms(3) have "safe_to_datetime ext (chart_time_cell logs (logs ! i)) = None"
    using selected_timestamp_chart by blast
  from dropped_from_chart [OF assms(2) this]
  have out: "i \<notin> idx ` set (df_chart ext logs)" .
  then have groups: "i \<notin> idx ` set (filter P (df_chart ext logs))" for P
    by auto
  have len: "length (recent views) = min 25 (length logs)"
    by (simp add: r min.commute)
  have "recent views ! i = recent_entry ext (logs ! i)" if "i < 25"
    using that assms(2) by (simp add: r)
  with out groups r len show ?thesis by (simp add: v)
qed

lemma example_many_recent:
  "map_sum id (map_option recent) (bot_decisions example_externals example_many_logs) =
     Inr (Some (replicate 25 \<lparr> Time = ''12:35:56'', Decision = JStr ''HOLD'', Thesis = [] \<rparr>))"
  by (simp add: bot_decisions_def px_line_def ebind_def Let_def example_many_logs_def
      has_column_def dict_has_def recent_entry_def dict_get_def py_or_def)

theorem unparsable_timestamp_record_witness:
  "safe_to_datetime example_externals (selected_timestamp (example_logs ! 2)) = None \<and>
   map_of (example_logs ! 2) ''created_at'' = Some (JStr ''not-a-date'') \<and>
   (\<exists>views. bot_decisions example_externals example_logs = Inr (Some views) \<and>
      map idx (chart views) = [1, 0] \<and>
      2 \<notin> idx ` set (chart views) \<and> 2 \<notin> idx ` set (buys views) \<and>
      length (recent views) = 3 \<and>
      recent views ! 2 =
        \<lparr> Time = ''not-a-date'', Decision = JStr ''ENTER_LONG'', Thesis = [] \<rparr>)"
proof -
  let ?r1 = "\<lparr> idx = 1, created_at = 1704112496789000000, intent_norm = ''UNKNOWN_X'',
        market_price = None \<rparr>"
  let ?r0 = "\<lparr> idx = 0, created_at = 1704112556000000000, intent_norm = ''flat'',
        market_price = Some 110 \<rparr>"
  let ?v = "\<lparr> chart = [?r1, ?r0], buys = [], shorts = [], adds = [], reduces = [],
      exits = [?r0],
      recent =
        [\<lparr> Time = ''12:35:56'', Decision = JStr ''flat'', Thesis = [] \<rparr>,
         \<lparr> Time = ''12:34:56'', Decision = JStr ''UNKNOWN_X'', Thesis = [] \<rparr>,
         \<lparr> Time = ''not-a-date'', Decision = JStr ''ENTER_LONG'', Thesis = [] \<rparr>] \<rparr>"
  have b: "bot_decisions example_externals example_logs = Inr (Some ?v)"
    by (rule example_bot_decisions)
  have len: "2 < length example_logs" by (simp add: example_logs_def)
  have nth: "example_logs ! 2 = [(''created_at'', JStr ''not-a-date''),
       (''intent'', JStr ''ENTER_LONG''), (''market_price'', JInt 105)]"
    by (simp add: example_logs_def)
  have bad: "safe_to_datetime example_externals (selected_timestamp (example_logs ! 2)) = None"
    by (simp add: nth selected_timestamp_def safe_to_datetime_def example_externals_def)
  then have hyp: "safe_to_datetime example_externals (selected_timestamp (example_logs ! 2)) = None \<or>
      safe_to_datetime example_externals (chart_time_cell example_logs (example_logs ! 2)) = None"
    by simp
  note t = unparsable_timestamp_record [OF b len hyp]
  from t have c: "2 \<notin> idx ` set (chart ?v)" by (elim conjE)
  from t have g: "2 \<notin> idx ` set (buys ?v)" by (elim conjE)
  from b c g bad nth show ?thesis
    by (intro conjI exI [of _ ?v]) simp_all
qed

text \<open>
  The claim as the specification words it fails on the last of twenty-six records: its
  timestamp is not an instant, the view has the rows of the twenty-five records before it,
  and its own row is none of them.
\<close>

theorem unparsable_timestamp_record_counterexample:
  "safe_to_datetime example_externals (selected_timestamp (example_many_logs ! 25)) = None \<and>
   recent_entry example_externals (example_many_logs ! 25) =
     \<lparr> Time = ''not-a-date'', Decision = JStr ''HOLD'', Thesis = [] \<rparr> \<and>
   map_sum id (map_option recent) (bot_decisions example_externals example_many_logs) =
     Inr (Some (replicate 25 \<lparr> Time = ''12:35:56'', Decision = JStr ''HOLD'', Thesis = [] \<rparr>)) \<and>
   \<lparr> Time = ''not-a-date'', Decision = JStr ''HOLD'', Thesis = [] \<rparr> \<notin>
     set (replicate 25 \<lparr> Time = ''12:35:56'', Decision = JStr ''HOLD'', Thesis = [] \<rparr>)"
proof -
  have nth: "example_many_logs ! 25 = [(''created_at'', JStr ''not-a-date''),
       (''intent'', JStr ''HOLD''), (''market_price'', JInt 105)]"
    by (simp add: example_many_logs_def nth_append)
  have "safe_to_datetime example_externals (selected_timestamp (example_many_logs ! 25)) = None"
    by (simp add: nth selected_timestamp_def safe_to_datetime_def example_externals_def)
  moreover have "recent_entry example_externals (example_many_logs ! 25) =
      \<lparr> Time = ''not-a-date'', Decision = JStr ''HOLD'', Thesis = [] \<rparr>"
    by (simp add: nth recent_entry_def dict_get_def py_or_def Let_def)
  ultimately show ?thesis using example_many_recent by simp
qed

end
